theory Spec2Isabelle
  imports
    Main
    "HOL-Library.Word"
    "HOL-Library.Char_ord"
    "HOL-Library.List_Lexorder"
    "HOL-Library.Sublist"
begin

section \<open>The GCE backend of the worker (backend/gce.go)\<close>

text \<open>
  A shallow embedding of \<^verbatim>\<open>backend/gce.go\<close>. Go strings are byte strings and are
  modelled as \<open>string\<close>; with the orders of \<open>Char_ord\<close> and \<open>List_Lexorder\<close> the order
  on \<open>string\<close> is the bytewise lexicographic order that \<^verbatim>\<open>sort.Strings\<close> uses.
  \<^verbatim>\<open>int64\<close>, \<^verbatim>\<open>uint64\<close> and \<^verbatim>\<open>time.Duration\<close> are 64-bit words, \<^verbatim>\<open>uint8\<close> is an 8-bit
  word. A Go pointer that may be \<^verbatim>\<open>nil\<close> is an \<open>option\<close>. A Go \<^verbatim>\<open>(value, error)\<close>
  result is a sum \<open>error + value\<close>, \<open>Inl\<close> carrying the error; a lone \<^verbatim>\<open>error\<close>
  result is an \<open>error option\<close>, \<open>None\<close> being \<^verbatim>\<open>nil\<close>.

  Calls that leave the process (the cloud API, SSH and SFTP, the file system, the
  standard library's parsers) are parameters of the model: records of functions, or of
  the replies the remote side gives in one run.
\<close>

subsection \<open>Errors\<close>

datatype OperationErrorErrors =
  OperationErrorErrors (Code: string) (Location: string) (Message: string)

text \<open>
  Modelled from the spec: \<^verbatim>\<open>ErrStaleVM\<close>, declared in another file of package
  \<^verbatim>\<open>backend\<close>, is a sentinel error, "a distinct value that callers can equality-test";
  it is a constructor of its own.

  \<open>Err m\<close> is an error made by \<^verbatim>\<open>fmt.Errorf\<close> or returned by a library, with its
  message; \<open>ErrMissingIPAddress\<close> is \<^verbatim>\<open>errGCEMissingIPAddressError\<close>; \<open>GceOpError\<close> is
  \<^verbatim>\<open>&gceOpError{Err: ...}\<close> with the \<^verbatim>\<open>Errors\<close> of its payload; \<open>ExitError n\<close> is an
  \<^verbatim>\<open>*ssh.ExitError\<close> whose \<^verbatim>\<open>ExitStatus()\<close> is \<open>n\<close>; \<open>Canceled\<close> and
  \<open>DeadlineExceeded\<close> are the two values of \<^verbatim>\<open>ctx.Err()\<close>.
\<close>

datatype error =
    Err string
  | ErrStaleVM
  | ErrMissingIPAddress
  | GceOpError "OperationErrorErrors list"
  | ExitError int
  | Canceled
  | DeadlineExceeded

fun join :: "string list \<Rightarrow> string \<Rightarrow> string" where
  "join [] sep = []"
| "join [s] sep = s"
| "join (s # t # ss) sep = s @ sep @ join (t # ss) sep"

definition gceOpError_Error :: "OperationErrorErrors list \<Rightarrow> string" where
  "gceOpError_Error errs =
     join (map (\<lambda>err. ''code='' @ Code err @ '' location='' @ Location err @
                       '' message='' @ Message err) errs) '', ''"

subsection \<open>Constants\<close>

definition defaultGCEZone :: string where "defaultGCEZone = ''us-central1-a''"
definition defaultGCEMachineType :: string where "defaultGCEMachineType = ''n1-standard-2''"
definition defaultGCENetwork :: string where "defaultGCENetwork = ''default''"
definition defaultGCEDiskSize :: "64 word" where "defaultGCEDiskSize = 20"
definition defaultGCELanguage :: string where "defaultGCELanguage = ''minimal''"
definition defaultGCEBootPollSleep :: "64 word" where "defaultGCEBootPollSleep = 3 * 1000000000"
definition defaultGCEUploadRetries :: "64 word" where "defaultGCEUploadRetries = 10"
definition defaultGCEUploadRetrySleep :: "64 word" where
  "defaultGCEUploadRetrySleep = 5 * 1000000000"
definition defaultGCEHardTimeoutMinutes :: "64 word" where "defaultGCEHardTimeoutMinutes = 130"
definition defaultGCEImageSelectorType :: string where "defaultGCEImageSelectorType = ''legacy''"
definition defaultGCEImage :: string where "defaultGCEImage = ''travis-ci-mega.+''"

text \<open>\<^verbatim>\<open>fmt.Sprintf(gceImageTravisCIPrefixFilter, language)\<close>, the format being
  \<^verbatim>\<open>"name eq ^travis-ci-%s.+"\<close>.\<close>

definition gceImageTravisCIPrefixFilter :: "string \<Rightarrow> string" where
  "gceImageTravisCIPrefixFilter language = ''name eq ^travis-ci-'' @ language @ ''.+''"

subsection \<open>The provider configuration\<close>

text \<open>
  Modelled from the spec: \<^verbatim>\<open>config.ProviderConfig\<close> (package \<^verbatim>\<open>config\<close> of this
  repository) is "a mapping from option name to string, with IsSet, Get, Set, Unset";
  \<open>Get\<close> of an option that is not set is the empty string (the spec's default of
  \<^verbatim>\<open>INSTANCE_GROUP\<close>, which the constructor reads with a bare \<open>Get\<close>, is "empty").
\<close>

type_synonym ProviderConfig = "string \<rightharpoonup> string"

definition IsSet :: "ProviderConfig \<Rightarrow> string \<Rightarrow> bool" where
  "IsSet pc key = (case pc key of None \<Rightarrow> False | Some v \<Rightarrow> True)"

definition Get :: "ProviderConfig \<Rightarrow> string \<Rightarrow> string" where
  "Get pc key = (case pc key of None \<Rightarrow> [] | Some v \<Rightarrow> v)"

definition Set :: "ProviderConfig \<Rightarrow> string \<Rightarrow> string \<Rightarrow> ProviderConfig" where
  "Set pc key v = pc(key \<mapsto> v)"

definition Unset :: "ProviderConfig \<Rightarrow> string \<Rightarrow> ProviderConfig" where
  "Unset pc key = pc(key := None)"

subsection \<open>Cloud objects and the provider\<close>

text \<open>The objects of the compute API, with the fields this file reads.\<close>

record Image =
  Image_Name :: string
  Image_SelfLink :: string

record ComputeZone =
  Zone_Name :: string

record ComputeMachineType =
  MachineType_SelfLink :: string

record ComputeNetwork =
  Network_SelfLink :: string

record AccessConfig =
  NatIP :: string

record NetworkInterface =
  AccessConfigs :: "AccessConfig list option"

record Instance =
  Instance_Name :: string
  Instance_SelfLink :: string
  NetworkInterfaces :: "NetworkInterface list"

text \<open>
  Modelled from the spec: \<^verbatim>\<open>StartAttributes\<close>, declared in another file of package
  \<^verbatim>\<open>backend\<close>, with "the subset the resolver reads: Language, OsxImage, Dist, Group,
  OS, all optional strings".
\<close>

record StartAttributes =
  Language :: string
  OsxImage :: string
  Dist :: string
  Group :: string
  OS :: string

text \<open>
  Modelled from the spec: \<^verbatim>\<open>image.Params\<close> and \<^verbatim>\<open>image.Selector\<close> of package
  \<^verbatim>\<open>image\<close>. A selector is given the parameters "infra, language, osx_image, dist,
  group, os" and "returns an image name", or an error; it is modelled as its one method
  \<^verbatim>\<open>Select\<close>.
\<close>

datatype Params = Params (Params_Infra: string) (Params_Language: string)
  (Params_OsxImage: string) (Params_Dist: string) (Params_Group: string) (Params_OS: string)

type_synonym Selector = "Params \<Rightarrow> error + string"

record gceAccountJSON =
  ClientEmail :: string
  PrivateKey :: string

record gceInstanceConfig =
  MachineType :: "ComputeMachineType option"
  Zone :: "ComputeZone option"
  Network :: "ComputeNetwork option"
  DiskType :: string
  DiskSize :: "64 word"
  SSHKeySigner :: string
  SSHPubKey :: string
  AutoImplode :: bool
  HardTimeoutMinutes :: "64 word"

record gceProvider =
  client :: gceAccountJSON
  projectID :: string
  ic :: gceInstanceConfig
  cfg :: ProviderConfig
  imageSelectorType :: string
  imageSelector :: "Selector option"
  instanceGroup :: string
  bootPollSleep :: "64 word"
  defaultLanguage :: string
  defaultImage :: string
  uploadRetries :: "64 word"
  uploadRetrySleep :: "64 word"

subsection \<open>Image resolution\<close>

text \<open>
  \<open>Images_List project filter\<close> is the reply of
  \<^verbatim>\<open>client.Images.List(project).Filter(filter).Do()\<close>: a transport error or the
  \<^verbatim>\<open>Items\<close> of the image list.
\<close>

type_synonym Images_List = "string \<Rightarrow> string \<Rightarrow> error + Image list"

text \<open>The body of the loop over \<^verbatim>\<open>images.Items\<close>.\<close>

fun imageByFilter_step ::
  "Image \<Rightarrow> (string \<rightharpoonup> Image) \<times> string list \<Rightarrow> (string \<rightharpoonup> Image) \<times> string list"
where
  "imageByFilter_step img (imagesByName, imageNames) =
     (imagesByName(Image_Name img \<mapsto> img), imageNames @ [Image_Name img])"

definition imageByFilter :: "Images_List \<Rightarrow> gceProvider \<Rightarrow> string \<Rightarrow> error + Image option" where
  "imageByFilter images_list p flt =
     (case images_list (projectID p) flt of
        Inl err \<Rightarrow> Inl err
      | Inr items \<Rightarrow>
          if length items = 0 then Inl (Err (''no image found with filter '' @ flt))
          else
            (case fold imageByFilter_step items (Map.empty, []) of
               (imagesByName, imageNames) \<Rightarrow>
                 (let imageNames = sort imageNames
                  in Inr (imagesByName (imageNames ! (length imageNames - 1))))))"

definition imageForLanguage :: "Images_List \<Rightarrow> gceProvider \<Rightarrow> string \<Rightarrow> error + Image option" where
  "imageForLanguage images_list p language =
     imageByFilter images_list p (gceImageTravisCIPrefixFilter language)"

text \<open>The loop of \<^verbatim>\<open>legacyImageSelect\<close> over the candidates; \<open>acc\<close> is the pair
  \<^verbatim>\<open>(image, err)\<close> assigned so far.\<close>

fun legacyImageSelect_loop ::
  "Images_List \<Rightarrow> gceProvider \<Rightarrow> string list \<Rightarrow> error + Image option \<Rightarrow> error + Image option"
where
  "legacyImageSelect_loop images_list p [] acc = acc"
| "legacyImageSelect_loop images_list p (language # rest) acc =
     (case imageForLanguage images_list p language of
        Inr img \<Rightarrow> Inr img
      | Inl err \<Rightarrow> legacyImageSelect_loop images_list p rest (Inl err))"

text \<open>\<open>toUpper\<close> is \<^verbatim>\<open>strings.ToUpper\<close>.\<close>

definition legacyImageSelect ::
  "(string \<Rightarrow> string) \<Rightarrow> Images_List \<Rightarrow> gceProvider \<Rightarrow> StartAttributes \<Rightarrow> error + Image option"
where
  "legacyImageSelect toUpper images_list p startAttributes =
     (let mappedLang = ''LANGUAGE_MAP_'' @ toUpper (Language startAttributes);
          candidateLangs =
            (if IsSet (cfg p) mappedLang then [] @ [Get (cfg p) mappedLang]
             else [] @ [Language startAttributes]);
          candidateLangs = candidateLangs @ [defaultLanguage p]
      in legacyImageSelect_loop images_list p candidateLangs (Inr None))"

text \<open>A call through a \<^verbatim>\<open>nil\<close> selector panics; \<open>Panic\<close> marks it.\<close>

datatype 'a outcome = Returns 'a | Panic

definition imageSelect ::
  "Images_List \<Rightarrow> gceProvider \<Rightarrow> StartAttributes \<Rightarrow> (error + Image option) outcome"
where
  "imageSelect images_list p startAttributes =
     (case imageSelector p of
        None \<Rightarrow> Panic
      | Some select \<Rightarrow>
          (case select (Params ''gce'' (Language startAttributes) (OsxImage startAttributes)
                          (Dist startAttributes) (Group startAttributes) (OS startAttributes)) of
             Inl err \<Rightarrow> Returns (Inl err)
           | Inr imageName \<Rightarrow>
               (let imageName = (if imageName = ''default'' then defaultImage p else imageName)
                in Returns (imageByFilter images_list p (''name eq ^'' @ imageName)))))"

definition getImage ::
  "(string \<Rightarrow> string) \<Rightarrow> Images_List \<Rightarrow> gceProvider \<Rightarrow> StartAttributes
     \<Rightarrow> (error + Image option) outcome"
where
  "getImage toUpper images_list p startAttributes =
     (if imageSelectorType p = ''env'' \<or> imageSelectorType p = ''api''
      then imageSelect images_list p startAttributes
      else Returns (legacyImageSelect toUpper images_list p startAttributes))"

subsection \<open>Provider construction\<close>

text \<open>
  The library and file-system calls of \<^verbatim>\<open>newGCEProvider\<close>, as functions of their
  arguments: \<^verbatim>\<open>strings.TrimSpace\<close>, \<^verbatim>\<open>ioutil.ReadFile\<close>, \<^verbatim>\<open>json.Unmarshal\<close> into a
  \<^verbatim>\<open>gceAccountJSON\<close>, \<^verbatim>\<open>compute.New\<close> on the OAuth2 client of an account,
  \<^verbatim>\<open>pem.Decode\<close> (its block, \<open>None\<close> for \<^verbatim>\<open>nil\<close>), \<^verbatim>\<open>x509.DecryptPEMBlock\<close>,
  \<^verbatim>\<open>x509.ParsePKCS1PrivateKey\<close>, \<^verbatim>\<open>ssh.NewSignerFromKey\<close>,
  \<^verbatim>\<open>strconv.ParseInt(s, 10, 64)\<close>, \<^verbatim>\<open>strconv.ParseUint(s, 10, 64)\<close>,
  \<^verbatim>\<open>strconv.ParseBool\<close>, \<^verbatim>\<open>time.ParseDuration\<close>, \<^verbatim>\<open>image.NewEnvSelector\<close>,
  \<^verbatim>\<open>url.Parse\<close>, \<^verbatim>\<open>image.NewAPISelector\<close> and the \<^verbatim>\<open>%q\<close> verb of \<^verbatim>\<open>fmt\<close>.
  Keys, blocks and signers are named by strings.
\<close>

record Env =
  TrimSpace :: "string \<Rightarrow> string"
  ReadFile :: "string \<Rightarrow> error + string"
  json_Unmarshal :: "string \<Rightarrow> error + gceAccountJSON"
  compute_New :: "gceAccountJSON \<Rightarrow> error + gceAccountJSON"
  pem_Decode :: "string \<Rightarrow> string option"
  DecryptPEMBlock :: "string \<Rightarrow> string \<Rightarrow> error + string"
  ParsePKCS1PrivateKey :: "string \<Rightarrow> error + string"
  NewSignerFromKey :: "string \<Rightarrow> error + string"
  ParseInt :: "string \<Rightarrow> error + 64 word"
  ParseUint :: "string \<Rightarrow> error + 64 word"
  ParseBool :: "string \<Rightarrow> error + bool"
  ParseDuration :: "string \<Rightarrow> error + 64 word"
  NewEnvSelector :: "ProviderConfig \<Rightarrow> error + Selector"
  url_Parse :: "string \<Rightarrow> error + string"
  NewAPISelector :: "string \<Rightarrow> Selector"
  Quote :: "string \<Rightarrow> string"

definition loadGoogleAccountJSON :: "Env \<Rightarrow> string \<Rightarrow> error + gceAccountJSON" where
  "loadGoogleAccountJSON env filenameOrJSON =
     (if prefix ''{'' (TrimSpace env filenameOrJSON) then json_Unmarshal env filenameOrJSON
      else
        (case ReadFile env filenameOrJSON of
           Inl err \<Rightarrow> Inl err
         | Inr bytes \<Rightarrow> json_Unmarshal env bytes))"

text \<open>The compute service is named by the account it was built for; the transport
  override of the tests does not change what is returned.\<close>

definition buildGoogleComputeService :: "Env \<Rightarrow> ProviderConfig \<Rightarrow> error + gceAccountJSON" where
  "buildGoogleComputeService env pc =
     (if \<not> IsSet pc ''ACCOUNT_JSON'' then Inl (Err ''missing ACCOUNT_JSON'')
      else
        (case loadGoogleAccountJSON env (Get pc ''ACCOUNT_JSON'') of
           Inl err \<Rightarrow> Inl err
         | Inr a \<Rightarrow> compute_New env a))"

definition buildGCEImageSelector :: "Env \<Rightarrow> string \<Rightarrow> ProviderConfig \<Rightarrow> error + Selector" where
  "buildGCEImageSelector env selectorType pc =
     (if selectorType = ''env'' then NewEnvSelector env pc
      else if selectorType = ''api'' then
        (case url_Parse env (Get pc ''IMAGE_SELECTOR_URL'') of
           Inl err \<Rightarrow> Inl err
         | Inr baseURL \<Rightarrow> Inr (NewAPISelector env baseURL))
      else Inl (Err (''invalid image selector type '' @ Quote env selectorType)))"

text \<open>
  \<^verbatim>\<open>newGCEProvider\<close> in three parts, in the order of the source. The first (lines
  158 to 211) builds the client and loads the SSH key: it returns the client, the
  project id, the signer and the public key.
\<close>

definition newGCEProvider_keys ::
  "Env \<Rightarrow> ProviderConfig \<Rightarrow> error + (gceAccountJSON \<times> string \<times> string \<times> string)"
where
  "newGCEProvider_keys env pc =
     (case buildGoogleComputeService env pc of
        Inl err \<Rightarrow> Inl err
      | Inr cl \<Rightarrow>
     if \<not> IsSet pc ''PROJECT_ID'' then Inl (Err ''missing PROJECT_ID'')
     else if \<not> IsSet pc ''SSH_KEY_PATH'' then Inl (Err ''missing SSH_KEY_PATH config key'')
     else
       (case ReadFile env (Get pc ''SSH_KEY_PATH'') of
          Inl err \<Rightarrow> Inl err
        | Inr sshKeyBytes \<Rightarrow>
     if \<not> IsSet pc ''SSH_PUB_KEY_PATH'' then Inl (Err ''missing SSH_PUB_KEY_PATH config key'')
     else
       (case ReadFile env (Get pc ''SSH_PUB_KEY_PATH'') of
          Inl err \<Rightarrow> Inl err
        | Inr sshPubKeyBytes \<Rightarrow>
       (case pem_Decode env sshKeyBytes of
          None \<Rightarrow> Inl (Err ''ssh key does not contain a valid PEM block'')
        | Some block \<Rightarrow>
     if \<not> IsSet pc ''SSH_KEY_PASSPHRASE'' then Inl (Err ''missing SSH_KEY_PASSPHRASE config key'')
     else
       (case DecryptPEMBlock env block (Get pc ''SSH_KEY_PASSPHRASE'') of
          Inl err \<Rightarrow> Inl err
        | Inr der \<Rightarrow>
       (case ParsePKCS1PrivateKey env der of
          Inl err \<Rightarrow> Inl err
        | Inr parsedKey \<Rightarrow>
       (case NewSignerFromKey env parsedKey of
          Inl err \<Rightarrow> Inl err
        | Inr sshKeySigner \<Rightarrow>
            Inr (cl, Get pc ''PROJECT_ID'', sshKeySigner, sshPubKeyBytes))))))))"

text \<open>The second part (lines 213 to 232) resolves \<^verbatim>\<open>ZONE\<close>, \<^verbatim>\<open>MACHINE_TYPE\<close> and
  \<^verbatim>\<open>NETWORK\<close> and sets them on the configuration.\<close>

definition newGCEProvider_writeback :: "ProviderConfig \<Rightarrow> ProviderConfig" where
  "newGCEProvider_writeback pc =
     (let zoneName = (if IsSet pc ''ZONE'' then Get pc ''ZONE'' else defaultGCEZone);
          pc = Set pc ''ZONE'' zoneName;
          mtName = (if IsSet pc ''MACHINE_TYPE'' then Get pc ''MACHINE_TYPE''
                    else defaultGCEMachineType);
          pc = Set pc ''MACHINE_TYPE'' mtName;
          nwName = (if IsSet pc ''NETWORK'' then Get pc ''NETWORK'' else defaultGCENetwork);
          pc = Set pc ''NETWORK'' nwName
      in pc)"

text \<open>The third part (lines 234 to 335) resolves the remaining options and returns the
  provider. \<open>pc\<close> is the configuration after the second part.\<close>

definition newGCEProvider_options ::
  "Env \<Rightarrow> ProviderConfig \<Rightarrow> gceAccountJSON \<Rightarrow> string \<Rightarrow> string \<Rightarrow> string \<Rightarrow> error + gceProvider"
where
  "newGCEProvider_options env pc cl projID sshKeySigner sshPubKeyBytes =
     (let diskSize =
            (if IsSet pc ''DISK_SIZE'' then
               (case ParseInt env (Get pc ''DISK_SIZE'') of
                  Inr ds \<Rightarrow> ds
                | Inl err \<Rightarrow> defaultGCEDiskSize)
             else defaultGCEDiskSize)
      in
     (case (if IsSet pc ''BOOT_POLL_SLEEP'' then ParseDuration env (Get pc ''BOOT_POLL_SLEEP'')
            else Inr defaultGCEBootPollSleep) of
        Inl err \<Rightarrow> Inl err
      | Inr bootPollSleep' \<Rightarrow>
     (case (if IsSet pc ''UPLOAD_RETRIES'' then ParseUint env (Get pc ''UPLOAD_RETRIES'')
            else Inr defaultGCEUploadRetries) of
        Inl err \<Rightarrow> Inl err
      | Inr uploadRetries' \<Rightarrow>
     (case (if IsSet pc ''UPLOAD_RETRY_SLEEP''
            then ParseDuration env (Get pc ''UPLOAD_RETRY_SLEEP'')
            else Inr defaultGCEUploadRetrySleep) of
        Inl err \<Rightarrow> Inl err
      | Inr uploadRetrySleep' \<Rightarrow>
     (let defaultLanguage' =
            (if IsSet pc ''DEFAULT_LANGUAGE'' then Get pc ''DEFAULT_LANGUAGE''
             else defaultGCELanguage);
          defaultImage' =
            (if IsSet pc ''IMAGE_DEFAULT'' then Get pc ''IMAGE_DEFAULT'' else defaultGCEImage)
      in
     (case (if IsSet pc ''AUTO_IMPLODE'' then ParseBool env (Get pc ''AUTO_IMPLODE'')
            else Inr True) of
        Inl err \<Rightarrow> Inl err
      | Inr autoImplode \<Rightarrow>
     (case (if IsSet pc ''HARD_TIMEOUT_MINUTES''
            then ParseInt env (Get pc ''HARD_TIMEOUT_MINUTES'')
            else Inr defaultGCEHardTimeoutMinutes) of
        Inl err \<Rightarrow> Inl err
      | Inr hardTimeoutMinutes \<Rightarrow>
     (let imageSelectorType' =
            (if IsSet pc ''IMAGE_SELECTOR_TYPE'' then Get pc ''IMAGE_SELECTOR_TYPE''
             else defaultGCEImageSelectorType)
      in
     (if imageSelectorType' \<noteq> ''legacy'' \<and> imageSelectorType' \<noteq> ''env'' \<and>
         imageSelectorType' \<noteq> ''api''
      then Inl (Err (''invalid image selector type '' @ Quote env imageSelectorType'))
      else
     (case (if imageSelectorType' = ''env'' \<or> imageSelectorType' = ''api''
            then map_sum id Some (buildGCEImageSelector env imageSelectorType' pc)
            else Inr None) of
        Inl err \<Rightarrow> Inl err
      | Inr imageSelector' \<Rightarrow>
          Inr \<lparr> client = cl,
                projectID = projID,
                ic = \<lparr> MachineType = None, Zone = None, Network = None, DiskType = [],
                       DiskSize = diskSize,
                       SSHKeySigner = sshKeySigner,
                       SSHPubKey = sshPubKeyBytes,
                       AutoImplode = autoImplode,
                       HardTimeoutMinutes = hardTimeoutMinutes \<rparr>,
                cfg = pc,
                imageSelectorType = imageSelectorType',
                imageSelector = imageSelector',
                instanceGroup = Get pc ''INSTANCE_GROUP'',
                bootPollSleep = bootPollSleep',
                defaultLanguage = defaultLanguage',
                defaultImage = defaultImage',
                uploadRetries = uploadRetries',
                uploadRetrySleep = uploadRetrySleep' \<rparr>))))))))))"

text \<open>
  The constructor returns its result and the configuration as it leaves it: the
  configuration is a pointer the constructor writes through, and the provider keeps it.
\<close>

definition newGCEProvider :: "Env \<Rightarrow> ProviderConfig \<Rightarrow> (error + gceProvider) \<times> ProviderConfig" where
  "newGCEProvider env pc =
     (case newGCEProvider_keys env pc of
        Inl err \<Rightarrow> (Inl err, pc)
      | Inr (cl, projID, sshKeySigner, sshPubKeyBytes) \<Rightarrow>
          (let pc = newGCEProvider_writeback pc
           in (newGCEProvider_options env pc cl projID sshKeySigner sshPubKeyBytes, pc)))"

subsection \<open>Instances: SSH, upload and run\<close>

record gceInstance =
  i_client :: gceAccountJSON
  i_provider :: gceProvider
  i_instance :: Instance
  i_ic :: gceInstanceConfig
  i_authUser :: string
  i_projectID :: string
  i_imageName :: string

definition ID :: "gceInstance \<Rightarrow> string" where
  "ID i = Instance_Name (i_instance i) @ '':'' @ i_imageName i"

fun getIP_accessConfigs :: "AccessConfig list \<Rightarrow> string option" where
  "getIP_accessConfigs [] = None"
| "getIP_accessConfigs (ac # acs) =
     (if NatIP ac \<noteq> [] then Some (NatIP ac) else getIP_accessConfigs acs)"

fun getIP_interfaces :: "NetworkInterface list \<Rightarrow> string" where
  "getIP_interfaces [] = []"
| "getIP_interfaces (ni # nis) =
     (case AccessConfigs ni of
        None \<Rightarrow> getIP_interfaces nis
      | Some acs \<Rightarrow>
          (case getIP_accessConfigs acs of
             Some ip \<Rightarrow> ip
           | None \<Rightarrow> getIP_interfaces nis))"

definition getIP :: "gceInstance \<Rightarrow> string" where
  "getIP i = getIP_interfaces (NetworkInterfaces (i_instance i))"

text \<open>
  What the remote side answers during one SSH connection attempt:
  \<open>Instances_Get\<close> is the reply of \<^verbatim>\<open>client.Instances.Get(...).Do()\<close>, \<open>Dial addr\<close>
  the error of \<^verbatim>\<open>ssh.Dial("tcp", addr, ...)\<close> (\<open>None\<close> for a client).
\<close>

record ssh_env =
  Instances_Get :: "error + Instance"
  Dial :: "string \<Rightarrow> error option"

definition refreshInstance :: "ssh_env \<Rightarrow> gceInstance \<Rightarrow> error option \<times> gceInstance" where
  "refreshInstance env i =
     (case Instances_Get env of
        Inl err \<Rightarrow> (Some err, i)
      | Inr inst \<Rightarrow> (None, i\<lparr>i_instance := inst\<rparr>))"

definition sshClient :: "'a ssh_env_scheme \<Rightarrow> gceInstance \<Rightarrow> error option \<times> gceInstance" where
  "sshClient env i =
     (case refreshInstance (ssh_env.truncate env) i of
        (Some err, i) \<Rightarrow> (Some err, i)
      | (None, i) \<Rightarrow>
          (let ipAddr = getIP i
           in if ipAddr = [] then (Some ErrMissingIPAddress, i)
              else (Dial env (ipAddr @ '':22''), i)))"

text \<open>
  The guest's file \<^verbatim>\<open>build.sh\<close>, seen through SFTP: \<open>None\<close> when it does not exist,
  else its bytes. One upload attempt is answered by an \<open>upload_env\<close>: the SSH replies,
  the error of \<^verbatim>\<open>sftp.NewClient\<close>, a failure of \<^verbatim>\<open>Lstat\<close> that is not the file's
  absence, the error of \<^verbatim>\<open>Create\<close>, and for a \<^verbatim>\<open>Write\<close> that fails its error with the
  bytes that reached the file. The server is taken to behave as a file system does:
  \<^verbatim>\<open>Lstat\<close> succeeds on a file that exists, \<^verbatim>\<open>Create\<close> leaves an empty file, a write
  leaves what it wrote.
\<close>

type_synonym remote = "string option"

record upload_env = ssh_env +
  NewClient :: "error option"
  Lstat_fault :: "error option"
  Create :: "error option"
  Write :: "(error \<times> string) option"

definition sftp_Lstat :: "upload_env \<Rightarrow> remote \<Rightarrow> error option" where
  "sftp_Lstat env fs =
     (case Lstat_fault env of
        Some err \<Rightarrow> Some err
      | None \<Rightarrow> (case fs of None \<Rightarrow> Some (Err ''file does not exist'') | Some bytes \<Rightarrow> None))"

definition sftp_Create :: "upload_env \<Rightarrow> remote \<Rightarrow> error option \<times> remote" where
  "sftp_Create env fs =
     (case Create env of
        Some err \<Rightarrow> (Some err, fs)
      | None \<Rightarrow> (None, Some []))"

definition file_Write :: "upload_env \<Rightarrow> string \<Rightarrow> remote \<Rightarrow> error option \<times> remote" where
  "file_Write env script fs =
     (case Write env of
        Some (err, written) \<Rightarrow> (Some err, Some written)
      | None \<Rightarrow> (None, Some script))"

definition uploadScriptAttempt ::
  "upload_env \<Rightarrow> gceInstance \<Rightarrow> string \<Rightarrow> remote \<Rightarrow> error option \<times> gceInstance \<times> remote"
where
  "uploadScriptAttempt env i script fs =
     (case sshClient env i of
        (Some err, i) \<Rightarrow> (Some err, i, fs)
      | (None, i) \<Rightarrow>
          (case NewClient env of
             Some err \<Rightarrow> (Some err, i, fs)
           | None \<Rightarrow>
               (case sftp_Lstat env fs of
                  None \<Rightarrow> (Some ErrStaleVM, i, fs)
                | Some err \<Rightarrow>
                    (case sftp_Create env fs of
                       (Some err, fs) \<Rightarrow> (Some err, i, fs)
                     | (None, fs) \<Rightarrow>
                         (case file_Write env script fs of
                            (Some err, fs) \<Rightarrow> (Some err, i, fs)
                          | (None, fs) \<Rightarrow> (None, i, fs))))))"

text \<open>
  The uploader of \<^verbatim>\<open>UploadScript\<close>. One iteration of its loop is answered by an
  \<open>upload_iter\<close>: the value of \<^verbatim>\<open>ctx.Err()\<close> at the top of the iteration and the
  replies to the attempt. The state of the loop is the error counter (a \<^verbatim>\<open>uint64\<close>),
  the instance and the guest's file, with the numbers of attempts made and of sleeps
  taken so far. The list gives the iterations observed; the result is \<open>None\<close> when
  the loop is still running after them, that is when the call has not returned.

  When \<^verbatim>\<open>ctx.Err()\<close> is not \<^verbatim>\<open>nil\<close> the uploader leaves without sending, and the
  \<^verbatim>\<open>select\<close> of \<^verbatim>\<open>UploadScript\<close> returns \<^verbatim>\<open>ctx.Err()\<close>; otherwise the \<^verbatim>\<open>select\<close>
  returns what the uploader sends.
\<close>

record upload_iter =
  ctx_Err :: "error option"
  attempt :: upload_env

record upload_state =
  errCount :: "64 word"
  inst :: gceInstance
  guest :: remote
  attempts :: nat
  sleeps :: nat

fun uploader :: "string \<Rightarrow> upload_state \<Rightarrow> upload_iter list \<Rightarrow> (error option \<times> upload_state) option" where
  "uploader script st [] = None"
| "uploader script st (it # its) =
     (case ctx_Err it of
        Some cerr \<Rightarrow> Some (Some cerr, st)
      | None \<Rightarrow>
          (case uploadScriptAttempt (attempt it) (inst st) script (guest st) of
             (None, i, fs) \<Rightarrow>
               Some (None, st\<lparr>inst := i, guest := fs, attempts := Suc (attempts st)\<rparr>)
           | (Some err, i, fs) \<Rightarrow>
               (let st = st\<lparr>inst := i, guest := fs, attempts := Suc (attempts st),
                            errCount := errCount st + 1\<rparr>
                in if errCount st > uploadRetries (i_provider (inst st)) then Some (Some err, st)
                   else uploader script (st\<lparr>sleeps := Suc (sleeps st)\<rparr>) its)))"

definition UploadScript ::
  "gceInstance \<Rightarrow> string \<Rightarrow> remote \<Rightarrow> upload_iter list \<Rightarrow> (error option \<times> upload_state) option"
where
  "UploadScript i script fs its =
     uploader script \<lparr>errCount = 0, inst = i, guest = fs, attempts = 0, sleeps = 0\<rparr> its"

text \<open>The errors the attempts of a run return, one after the other, each attempt
  starting from the instance and the file the one before left.\<close>

fun attempt_errors :: "gceInstance \<Rightarrow> string \<Rightarrow> remote \<Rightarrow> upload_env list \<Rightarrow> error option list" where
  "attempt_errors i script fs [] = []"
| "attempt_errors i script fs (env # envs) =
     (case uploadScriptAttempt env i script fs of
        (r, i, fs) \<Rightarrow> r # attempt_errors i script fs envs)"

text \<open>
  Modelled from the spec: \<^verbatim>\<open>RunResult\<close>, declared in another file of package
  \<^verbatim>\<open>backend\<close>, is "{ Completed: bool, ExitCode: uint8 }".
\<close>

record RunResult =
  Completed :: bool
  ExitCode :: "8 word"

text \<open>\<open>NewSession\<close>, \<open>RequestPty\<close> and \<open>Run\<close> are the errors of \<^verbatim>\<open>client.NewSession()\<close>,
  of \<^verbatim>\<open>session.RequestPty("xterm", 80, 40, ...)\<close> and of
  \<^verbatim>\<open>session.Run("bash ~/build.sh")\<close>. The \<^verbatim>\<open>RunResult\<close> returned is never \<^verbatim>\<open>nil\<close>;
  where the source gives no \<^verbatim>\<open>ExitCode\<close> it is 0.\<close>

record run_env = ssh_env +
  NewSession :: "error option"
  RequestPty :: "error option"
  Run :: "error option"

definition RunScript :: "run_env \<Rightarrow> gceInstance \<Rightarrow> (RunResult \<times> error option) \<times> gceInstance" where
  "RunScript env i =
     (case sshClient env i of
        (Some err, i) \<Rightarrow> ((\<lparr>Completed = False, ExitCode = 0\<rparr>, Some err), i)
      | (None, i) \<Rightarrow>
          (case NewSession env of
             Some err \<Rightarrow> ((\<lparr>Completed = False, ExitCode = 0\<rparr>, Some err), i)
           | None \<Rightarrow>
               (case RequestPty env of
                  Some err \<Rightarrow> ((\<lparr>Completed = False, ExitCode = 0\<rparr>, Some err), i)
                | None \<Rightarrow>
                    (case Run env of
                       None \<Rightarrow> ((\<lparr>Completed = True, ExitCode = 0\<rparr>, None), i)
                     | Some (ExitError status) \<Rightarrow>
                         ((\<lparr>Completed = True, ExitCode = word_of_int status\<rparr>, None), i)
                     | Some err \<Rightarrow> ((\<lparr>Completed = False, ExitCode = 0\<rparr>, Some err), i)))))"

subsection \<open>Polling cloud operations: Stop and Start\<close>

text \<open>
  A reply of \<^verbatim>\<open>client.ZoneOperations.Get(...).Do()\<close>: a transport error, or an
  operation with its \<^verbatim>\<open>Status\<close> and its \<^verbatim>\<open>Error\<close> (\<open>None\<close> for \<^verbatim>\<open>nil\<close>, else the
  \<^verbatim>\<open>Errors\<close> of the payload). A poller is run on the replies it gets, in order; it
  returns what it sends (\<open>None\<close> when it is still polling after the last reply given)
  and the number of times it slept \<^verbatim>\<open>bootPollSleep\<close>.
\<close>

datatype op_reply =
    Get_failed error
  | Operation string "OperationErrorErrors list option"

text \<open>The poller of \<^verbatim>\<open>Stop\<close> sends an error or \<^verbatim>\<open>nil\<close> on \<^verbatim>\<open>errChan\<close>.\<close>

fun Stop_poller :: "op_reply list \<Rightarrow> nat \<Rightarrow> error option option \<times> nat" where
  "Stop_poller [] slept = (None, slept)"
| "Stop_poller (Get_failed err # replies) slept = (Some (Some err), slept)"
| "Stop_poller (Operation status operr # replies) slept =
     (if status = ''DONE'' then
        (case operr of
           Some errs \<Rightarrow> (Some (Some (GceOpError errs)), slept)
         | None \<Rightarrow> (Some None, slept))
      else Stop_poller replies (Suc slept))"

text \<open>
  \<open>Instances_Delete\<close> is the reply of \<^verbatim>\<open>client.Instances.Delete(...).Do()\<close> (the
  operation's name), \<open>delete_replies\<close> are the replies to the poller, \<open>stop_ctx\<close> says
  which case the \<^verbatim>\<open>select\<close> takes: \<open>Some cerr\<close> when it takes \<^verbatim>\<open><-ctx.Done()\<close>, with
  \<^verbatim>\<open>ctx.Err()\<close>; \<open>None\<close> when the context is not done before the poller sends. The
  result is \<open>None\<close> when \<^verbatim>\<open>Stop\<close> does not return: the poller does not send within
  its replies and the context is not done.
\<close>

record Stop_env =
  Instances_Delete :: "error + string"
  delete_replies :: "op_reply list"
  stop_ctx :: "error option"

definition Stop :: "Stop_env \<Rightarrow> gceInstance \<Rightarrow> error option option" where
  "Stop env i =
     (case Instances_Delete env of
        Inl err \<Rightarrow> Some (Some err)
      | Inr opName \<Rightarrow>
          (case stop_ctx env of
             Some cerr \<Rightarrow> Some (Some cerr)
           | None \<Rightarrow> fst (Stop_poller (delete_replies env) 0)))"

text \<open>The two pollers of \<^verbatim>\<open>Start\<close> have the same loop: each sends an error on
  \<^verbatim>\<open>errChan\<close> or the instance on its instance channel.\<close>

datatype start_msg = On_errChan error | On_instChan

fun Start_poller :: "op_reply list \<Rightarrow> nat \<Rightarrow> start_msg option \<times> nat" where
  "Start_poller [] slept = (None, slept)"
| "Start_poller (Get_failed err # replies) slept = (Some (On_errChan err), slept)"
| "Start_poller (Operation status operr # replies) slept =
     (if status = ''DONE'' then
        (case operr of
           Some errs \<Rightarrow> (Some (On_errChan (GceOpError errs)), slept)
         | None \<Rightarrow> (Some On_instChan, slept))
      else
        (case operr of
           Some errs \<Rightarrow> (Some (On_errChan (GceOpError errs)), slept)
         | None \<Rightarrow> Start_poller replies (Suc slept)))"

text \<open>
  The instance spec of \<^verbatim>\<open>buildInstance\<close>, reduced to the fields this file reads back
  (its name; the self link and the interfaces are the server's to fill). The name ends
  in \<^verbatim>\<open>uuid.NewRandom()\<close>. Reading \<^verbatim>\<open>p.ic.MachineType.SelfLink\<close> or
  \<^verbatim>\<open>p.ic.Network.SelfLink\<close> before \<^verbatim>\<open>Setup\<close> panics.
\<close>

definition buildInstance :: "gceProvider \<Rightarrow> string \<Rightarrow> Instance outcome" where
  "buildInstance p uuid =
     (case MachineType (ic p) of
        None \<Rightarrow> Panic
      | Some mt \<Rightarrow>
          (case Network (ic p) of
             None \<Rightarrow> Panic
           | Some nw \<Rightarrow>
               Returns \<lparr>Instance_Name = ''testing-gce-'' @ uuid, Instance_SelfLink = [],
                        NetworkInterfaces = []\<rparr>))"

text \<open>The calls \<^verbatim>\<open>Start\<close> makes that a test can observe, in order.\<close>

datatype call =
    Call_Insert string
  | Call_Delete string
  | Call_Get string
  | Call_AddInstances string string
  | Call_Mark string
  | Call_TimeSince string

text \<open>
  One run of \<^verbatim>\<open>Start\<close> is answered by a \<open>Start_env\<close>: the image listing and
  \<^verbatim>\<open>strings.ToUpper\<close> for the image resolver, the result of rendering the startup
  script, the UUID, the reply to \<^verbatim>\<open>Instances.Insert\<close> (the operation's name), the
  replies to the insert poller, the replies to \<^verbatim>\<open>Instances.Get\<close> and
  \<^verbatim>\<open>InstanceGroups.AddInstances\<close> and to the group poller, and the context at the two
  waits: \<open>wait_ctx\<close> at the loop that waits for the instance before the group is
  joined, \<open>select_ctx\<close> at the final \<^verbatim>\<open>select\<close>; \<open>Some cerr\<close> when the wait ends on
  \<^verbatim>\<open><-ctx.Done()\<close> with \<^verbatim>\<open>ctx.Err() = cerr\<close>, \<open>None\<close> when the context is not done
  before the awaited message.
\<close>

record Start_env =
  list_images :: Images_List
  ToUpper :: "string \<Rightarrow> string"
  Execute :: "error + string"
  NewRandom :: string
  Instances_Insert :: "error + string"
  insert_replies :: "op_reply list"
  wait_ctx :: "error option"
  group_Instances_Get :: "error + Instance"
  AddInstances :: "error + string"
  group_replies :: "op_reply list"
  select_ctx :: "error option"

text \<open>
  The state of \<^verbatim>\<open>Start\<close> after the insert: the flag, the variable \<^verbatim>\<open>inst\<close> (\<open>None\<close>
  when it was assigned the \<^verbatim>\<open>nil\<close> of a failed \<^verbatim>\<open>Instances.Get\<close>) and the calls made.
\<close>

record Start_state =
  abandonedStart :: bool
  inst_var :: "Instance option"
  calls :: "call list"

text \<open>A return of \<^verbatim>\<open>Start\<close>: the deferred function runs, and deletes when the flag is
  set. \<^verbatim>\<open>inst.Name\<close> on a \<^verbatim>\<open>nil\<close> instance panics.\<close>

definition Start_return ::
  "Start_state \<Rightarrow> error + gceInstance \<Rightarrow> (error + gceInstance) outcome option \<times> call list"
where
  "Start_return st r =
     (if abandonedStart st then
        (case inst_var st of
           None \<Rightarrow> (Some Panic, calls st)
         | Some i \<Rightarrow> (Some (Returns r), calls st @ [Call_Delete (Instance_Name i)]))
      else (Some (Returns r), calls st))"

definition ctx_Done_calls :: "error \<Rightarrow> call list" where
  "ctx_Done_calls cerr =
     (if cerr = DeadlineExceeded then [Call_Mark ''worker.vm.provider.gce.boot.timeout'']
      else [])"

text \<open>The final \<^verbatim>\<open>select\<close> over \<^verbatim>\<open>instChan\<close>, \<^verbatim>\<open>errChan\<close> and \<^verbatim>\<open>ctx.Done()\<close>; \<open>msg\<close>
  is what the poller that feeds it sends, \<open>i\<close> the instance it sends.\<close>

definition Start_select ::
  "Start_env \<Rightarrow> gceProvider \<Rightarrow> Image \<Rightarrow> Start_state \<Rightarrow> start_msg option \<Rightarrow> Instance
     \<Rightarrow> (error + gceInstance) outcome option \<times> call list"
where
  "Start_select env p img st msg i =
     (case select_ctx env of
        Some cerr \<Rightarrow>
          Start_return
            (st\<lparr>abandonedStart := True, calls := calls st @ ctx_Done_calls cerr\<rparr>) (Inl cerr)
      | None \<Rightarrow>
          (case msg of
             None \<Rightarrow> (None, calls st)
           | Some On_instChan \<Rightarrow>
               Start_return
                 (st\<lparr>calls := calls st @ [Call_TimeSince ''worker.vm.provider.gce.boot'']\<rparr>)
                 (Inr \<lparr>i_client = client p, i_provider = p, i_instance = i, i_ic = ic p,
                       i_authUser = ''travis'', i_projectID = projectID p,
                       i_imageName = Image_Name img\<rparr>)
           | Some (On_errChan err) \<Rightarrow> Start_return (st\<lparr>abandonedStart := True\<rparr>) (Inl err)))"

text \<open>The group path (lines 491 to 592), entered when \<^verbatim>\<open>p.instanceGroup\<close> is not empty.
  The waiting loop reads \<^verbatim>\<open>origInstanceReady\<close> and \<^verbatim>\<open>ctx.Done()\<close> only: an error the
  insert poller sends is not received there.\<close>

definition Start_group ::
  "Start_env \<Rightarrow> gceProvider \<Rightarrow> Image \<Rightarrow> Start_state \<Rightarrow> start_msg option \<Rightarrow> Instance
     \<Rightarrow> (error + gceInstance) outcome option \<times> call list"
where
  "Start_group env p img st insert_msg i =
     (case wait_ctx env of
        Some cerr \<Rightarrow>
          Start_return
            (st\<lparr>abandonedStart := True, calls := calls st @ ctx_Done_calls cerr\<rparr>) (Inl cerr)
      | None \<Rightarrow>
          (case insert_msg of
             None \<Rightarrow> (None, calls st)
           | Some (On_errChan err) \<Rightarrow> (None, calls st)
           | Some On_instChan \<Rightarrow>
               (let st = st\<lparr>calls := calls st @ [Call_Get (Instance_Name i)]\<rparr>
                in case group_Instances_Get env of
                     Inl err \<Rightarrow> Start_return (st\<lparr>inst_var := None\<rparr>) (Inl err)
                   | Inr i \<Rightarrow>
                       (let st = st\<lparr>inst_var := Some i,
                                    calls := calls st @
                                      [Call_AddInstances (instanceGroup p) (Instance_SelfLink i)]\<rparr>
                        in case AddInstances env of
                             Inl err \<Rightarrow> Start_return (st\<lparr>abandonedStart := True\<rparr>) (Inl err)
                           | Inr opName \<Rightarrow>
                               Start_select env p img st
                                 (fst (Start_poller (group_replies env) 0)) i))))"

definition Start ::
  "Start_env \<Rightarrow> gceProvider \<Rightarrow> StartAttributes
     \<Rightarrow> (error + gceInstance) outcome option \<times> call list"
where
  "Start env p startAttributes =
     (case getImage (ToUpper env) (list_images env) p startAttributes of
        Panic \<Rightarrow> (Some Panic, [])
      | Returns (Inl err) \<Rightarrow> (Some (Returns (Inl err)), [])
      | Returns (Inr image_ptr) \<Rightarrow>
          (case Execute env of
             Inl err \<Rightarrow> (Some (Returns (Inl err)), [])
           | Inr script \<Rightarrow>
               (case image_ptr of
                  None \<Rightarrow> (Some Panic, [])
                | Some img \<Rightarrow>
                    (case buildInstance p (NewRandom env) of
                       Panic \<Rightarrow> (Some Panic, [])
                     | Returns i \<Rightarrow>
                         (case Zone (ic p) of
                            None \<Rightarrow> (Some Panic, [])
                          | Some zone \<Rightarrow>
                              (case Instances_Insert env of
                                 Inl err \<Rightarrow>
                                   (Some (Returns (Inl err)), [Call_Insert (Instance_Name i)])
                               | Inr opName \<Rightarrow>
                                   (let st = \<lparr>abandonedStart = False, inst_var = Some i,
                                              calls = [Call_Insert (Instance_Name i)]\<rparr>;
                                        insert_msg = fst (Start_poller (insert_replies env) 0)
                                    in if instanceGroup p \<noteq> []
                                       then Start_group env p img st insert_msg i
                                       else Start_select env p img st insert_msg i)))))))"

section \<open>Reference definitions and example runs\<close>

text \<open>
  Definitions that state what the source is compared with, and the providers,
  instances and remote replies of the runs the properties are evaluated on. The
  library functions of the example environment are stand-ins that know a few inputs.
\<close>

subsection \<open>The legacy selector, in the words of its description\<close>

text \<open>
  The candidates: the mapped language when \<^verbatim>\<open>LANGUAGE_MAP_{UPPER(lang)}\<close> is set, else
  the language of the job; then the default language. A candidate yields an image when
  the listing for \<^verbatim>\<open>name eq ^travis-ci-{lang}.+\<close> answers with a list that is not
  empty. The selection is what the first candidate that yields an image gives, and when
  there is none what the last candidate gives.
\<close>

definition legacy_candidates :: "(string \<Rightarrow> string) \<Rightarrow> gceProvider \<Rightarrow> StartAttributes \<Rightarrow> string list" where
  "legacy_candidates toUpper p startAttributes =
     [if IsSet (cfg p) (''LANGUAGE_MAP_'' @ toUpper (Language startAttributes))
      then Get (cfg p) (''LANGUAGE_MAP_'' @ toUpper (Language startAttributes))
      else Language startAttributes,
      defaultLanguage p]"

definition yields_image :: "Images_List \<Rightarrow> gceProvider \<Rightarrow> string \<Rightarrow> bool" where
  "yields_image il p lang =
     (case il (projectID p) (''name eq ^travis-ci-'' @ lang @ ''.+'') of
        Inl err \<Rightarrow> False
      | Inr items \<Rightarrow> items \<noteq> [])"

definition legacyImageSelect_spec ::
  "(string \<Rightarrow> string) \<Rightarrow> Images_List \<Rightarrow> gceProvider \<Rightarrow> StartAttributes \<Rightarrow> error + Image option"
where
  "legacyImageSelect_spec toUpper il p startAttributes =
     (let candidates = legacy_candidates toUpper p startAttributes
      in case find (yields_image il p) candidates of
           Some lang \<Rightarrow> imageByFilter il p (''name eq ^travis-ci-'' @ lang @ ''.+'')
         | None \<Rightarrow> imageByFilter il p (''name eq ^travis-ci-'' @ last candidates @ ''.+''))"

subsection \<open>Providers, images and jobs\<close>

definition example_provider :: gceProvider where
  "example_provider =
     \<lparr> client = \<lparr>ClientEmail = ''ci@example.org'', PrivateKey = ''key''\<rparr>,
       projectID = ''travis-ci'',
       ic = \<lparr> MachineType = Some \<lparr>MachineType_SelfLink = ''machineTypes/n1-standard-2''\<rparr>,
              Zone = Some \<lparr>Zone_Name = ''us-central1-a''\<rparr>,
              Network = Some \<lparr>Network_SelfLink = ''networks/default''\<rparr>,
              DiskType = ''zones/us-central1-a/diskTypes/pd-ssd'',
              DiskSize = 20,
              SSHKeySigner = ''signer'',
              SSHPubKey = ''ssh-rsa AAA user@host'',
              AutoImplode = True,
              HardTimeoutMinutes = 130 \<rparr>,
       cfg = Map.empty,
       imageSelectorType = ''legacy'',
       imageSelector = None,
       instanceGroup = [],
       bootPollSleep = 3000000000,
       defaultLanguage = ''minimal'',
       defaultImage = ''travis-ci-mega.+'',
       uploadRetries = 3,
       uploadRetrySleep = 5000000000 \<rparr>"

definition go_images :: "Image list" where
  "go_images =
     [\<lparr>Image_Name = ''travis-ci-go-01'', Image_SelfLink = ''images/go-01''\<rparr>,
      \<lparr>Image_Name = ''travis-ci-go-02'', Image_SelfLink = ''images/go-02''\<rparr>,
      \<lparr>Image_Name = ''travis-ci-go-00'', Image_SelfLink = ''images/go-00''\<rparr>]"

text \<open>A project with images for \<^verbatim>\<open>minimal\<close> only.\<close>

definition minimal_only :: Images_List where
  "minimal_only project flt =
     (if flt = ''name eq ^travis-ci-minimal.+''
      then Inr [\<lparr>Image_Name = ''travis-ci-minimal-20150101'', Image_SelfLink = ''images/minimal''\<rparr>]
      else Inr [])"

definition ocaml_job :: StartAttributes where
  "ocaml_job = \<lparr>Language = ''ocaml'', OsxImage = [], Dist = [], Group = [], OS = ''linux''\<rparr>"


subsection \<open>Construction\<close>

text \<open>
  \<open>options_parse\<close>: each of the five options with a parser is not set or is accepted by
  its parser. \<open>selector_builds\<close>: the selector type is \<^verbatim>\<open>legacy\<close>, or it is \<^verbatim>\<open>env\<close> or
  \<^verbatim>\<open>api\<close> and the selector is built without an error. Neither reads \<^verbatim>\<open>DISK_SIZE\<close>.
\<close>

definition options_parse :: "Env \<Rightarrow> ProviderConfig \<Rightarrow> bool" where
  "options_parse env pc =
     ((if IsSet pc ''BOOT_POLL_SLEEP''
       then \<not> isl (ParseDuration env (Get pc ''BOOT_POLL_SLEEP'')) else True) \<and>
      (if IsSet pc ''UPLOAD_RETRIES''
       then \<not> isl (ParseUint env (Get pc ''UPLOAD_RETRIES'')) else True) \<and>
      (if IsSet pc ''UPLOAD_RETRY_SLEEP''
       then \<not> isl (ParseDuration env (Get pc ''UPLOAD_RETRY_SLEEP'')) else True) \<and>
      (if IsSet pc ''AUTO_IMPLODE''
       then \<not> isl (ParseBool env (Get pc ''AUTO_IMPLODE'')) else True) \<and>
      (if IsSet pc ''HARD_TIMEOUT_MINUTES''
       then \<not> isl (ParseInt env (Get pc ''HARD_TIMEOUT_MINUTES'')) else True))"

definition selector_builds :: "Env \<Rightarrow> ProviderConfig \<Rightarrow> bool" where
  "selector_builds env pc =
     (let t = (if IsSet pc ''IMAGE_SELECTOR_TYPE'' then Get pc ''IMAGE_SELECTOR_TYPE''
               else ''legacy'')
      in t = ''legacy'' \<or>
         ((t = ''env'' \<or> t = ''api'') \<and>
          \<not> isl (buildGCEImageSelector env t (newGCEProvider_writeback pc))))"

text \<open>An environment whose files exist and whose keys decode, and two configurations
  with the required options: one with a \<^verbatim>\<open>DISK_SIZE\<close> that is not a number, one with
  such an \<^verbatim>\<open>UPLOAD_RETRIES\<close>.\<close>

definition example_env :: Env where
  "example_env =
     \<lparr> TrimSpace = (\<lambda>s. s),
       ReadFile = (\<lambda>path. Inr (''contents of '' @ path)),
       json_Unmarshal = (\<lambda>bytes. Inr \<lparr>ClientEmail = ''ci@example.org'', PrivateKey = ''key''\<rparr>),
       compute_New = Inr,
       pem_Decode = Some,
       DecryptPEMBlock = (\<lambda>block passphrase. Inr block),
       ParsePKCS1PrivateKey = Inr,
       NewSignerFromKey = Inr,
       ParseInt = (\<lambda>s. if s = ''40'' then Inr 40
                        else Inl (Err ''strconv.ParseInt: invalid syntax'')),
       ParseUint = (\<lambda>s. if s = ''3'' then Inr 3
                         else Inl (Err ''strconv.ParseUint: invalid syntax'')),
       ParseBool = (\<lambda>s. if s = ''true'' then Inr True else if s = ''false'' then Inr False
                         else Inl (Err ''strconv.ParseBool: invalid syntax'')),
       ParseDuration = (\<lambda>s. if s = ''1s'' then Inr 1000000000
                             else Inl (Err ''time: invalid duration'')),
       NewEnvSelector = (\<lambda>pc. Inr (\<lambda>params. Inr ''default'')),
       url_Parse = Inr,
       NewAPISelector = (\<lambda>baseURL params. Inr ''default''),
       Quote = (\<lambda>s. s) \<rparr>"

definition required_options :: "(string \<times> string) list" where
  "required_options =
     [(''ACCOUNT_JSON'', ''{}''), (''PROJECT_ID'', ''travis-ci''),
      (''SSH_KEY_PATH'', ''id_rsa''), (''SSH_PUB_KEY_PATH'', ''id_rsa.pub''),
      (''SSH_KEY_PASSPHRASE'', ''secret'')]"

definition bad_disk_size :: ProviderConfig where
  "bad_disk_size = map_of ((''DISK_SIZE'', ''twenty'') # (''ZONE'', ''europe-west1-b'') # required_options)"

definition bad_upload_retries :: ProviderConfig where
  "bad_upload_retries = map_of ((''UPLOAD_RETRIES'', ''many'') # required_options)"


subsection \<open>Uploads and runs\<close>

text \<open>An attempt gets as far as the stale check and has it answered: the instance is
  refreshed and has an address, the dial and the SFTP client succeed, and \<^verbatim>\<open>Lstat\<close>
  does not fail for a reason of its own.\<close>

definition reaches_stale_check :: "upload_env \<Rightarrow> bool" where
  "reaches_stale_check env =
     ((case Instances_Get env of
         Inl err \<Rightarrow> False
       | Inr i \<Rightarrow>
           getIP_interfaces (NetworkInterfaces i) \<noteq> [] \<and>
           Dial env (getIP_interfaces (NetworkInterfaces i) @ '':22'') = None) \<and>
      NewClient env = None \<and> Lstat_fault env = None)"

definition example_instance :: gceInstance where
  "example_instance =
     \<lparr> i_client = client example_provider,
       i_provider = example_provider,
       i_instance = \<lparr>Instance_Name = ''testing-gce-0a1b'', Instance_SelfLink = ''instances/0a1b'',
                      NetworkInterfaces = []\<rparr>,
       i_ic = ic example_provider,
       i_authUser = ''travis'',
       i_projectID = ''travis-ci'',
       i_imageName = ''travis-ci-minimal-20150101'' \<rparr>"

text \<open>The instance as the cloud reports it once it has an address.\<close>

definition running_instance :: Instance where
  "running_instance =
     \<lparr>Instance_Name = ''testing-gce-0a1b'', Instance_SelfLink = ''instances/0a1b'',
      NetworkInterfaces =
        [\<lparr>AccessConfigs = None\<rparr>,
         \<lparr>AccessConfigs = Some [\<lparr>NatIP = []\<rparr>, \<lparr>NatIP = ''1.2.3.4''\<rparr>]\<rparr>]\<rparr>"

definition run_exits :: "error option \<Rightarrow> run_env" where
  "run_exits r =
     \<lparr>Instances_Get = Inr running_instance, Dial = (\<lambda>addr. None),
      NewSession = None, RequestPty = None, Run = r\<rparr>"

definition dial_fails :: run_env where
  "dial_fails =
     \<lparr>Instances_Get = Inr running_instance,
      Dial = (\<lambda>addr. Some (Err (''dial tcp '' @ addr @ '': connection refused''))),
      NewSession = None, RequestPty = None, Run = None\<rparr>"

text \<open>Upload attempts: one on which nothing fails, one whose write breaks after six
  bytes, one whose connection is refused.\<close>

definition connected :: upload_env where
  "connected =
     \<lparr>Instances_Get = Inr running_instance, Dial = (\<lambda>addr. None),
      NewClient = None, Lstat_fault = None, Create = None, Write = None\<rparr>"

definition write_breaks :: upload_env where
  "write_breaks = connected\<lparr>Write := Some (Err ''connection lost'', ''#!/bin'')\<rparr>"

definition refused :: upload_env where
  "refused =
     connected\<lparr>Dial := (\<lambda>addr. Some (Err (''dial tcp '' @ addr @ '': connection refused'')))\<rparr>"

definition iter :: "upload_env \<Rightarrow> upload_iter" where
  "iter env = \<lparr>ctx_Err = None, attempt = env\<rparr>"

text \<open>The instance of a provider whose \<^verbatim>\<open>UPLOAD_RETRIES\<close> is the greatest \<^verbatim>\<open>uint64\<close>,
  18446744073709551615.\<close>

definition max_retries_instance :: gceInstance where
  "max_retries_instance =
     example_instance\<lparr>i_provider := example_provider\<lparr>uploadRetries := - 1\<rparr>\<rparr>"


subsection \<open>Starts and stops\<close>

text \<open>A provider that joins its instances to the group \<^verbatim>\<open>builders\<close>, and a run of
  \<^verbatim>\<open>Start\<close> in which the insert completes and the \<^verbatim>\<open>Instances.Get\<close> that follows
  fails.\<close>

definition group_provider :: gceProvider where
  "group_provider = example_provider\<lparr>instanceGroup := ''builders''\<rparr>"

definition get_fails :: Start_env where
  "get_fails =
     \<lparr> list_images = minimal_only,
       ToUpper = (\<lambda>s. ''OCAML''),
       Execute = Inr ''#!/usr/bin/env bash'',
       NewRandom = ''0a1b'',
       Instances_Insert = Inr ''operation-insert'',
       insert_replies = [Operation ''RUNNING'' None, Operation ''DONE'' None],
       wait_ctx = None,
       group_Instances_Get = Inl (Err ''googleapi: got HTTP response code 503''),
       AddInstances = Inr ''operation-add'',
       group_replies = [Operation ''DONE'' None],
       select_ctx = None \<rparr>"

text \<open>The same run on a cloud whose insert operation ends in an error.\<close>

definition insert_op_fails :: Start_env where
  "insert_op_fails =
     get_fails\<lparr>insert_replies :=
       [Operation ''DONE''
          (Some [OperationErrorErrors ''QUOTA_EXCEEDED'' ''zones/us-central1-a'' ''out of cpus''])]\<rparr>"

text \<open>A reply with an operation that is not done.\<close>

definition not_done :: "op_reply \<Rightarrow> bool" where
  "not_done reply =
     (case reply of
        Get_failed err \<Rightarrow> False
      | Operation status operr \<Rightarrow> status \<noteq> ''DONE'')"


text \<open>A delete whose operation carries an error payload while it runs, and then is
  done without one.\<close>

definition pending_with_error :: "op_reply list" where
  "pending_with_error =
     [Operation ''RUNNING''
        (Some [OperationErrorErrors ''RESOURCE_IN_USE'' ''zones/us-central1-a'' ''busy'']),
      Operation ''RUNNING'' None]"

definition slow_delete :: Stop_env where
  "slow_delete =
     \<lparr> Instances_Delete = Inr ''operation-delete'',
       delete_replies = pending_with_error @ [Operation ''DONE'' None],
       stop_ctx = None \<rparr>"


text \<open>The same delete, on a context that is cancelled before the operation is done.\<close>

definition cancelled_delete :: Stop_env where
  "cancelled_delete = slow_delete\<lparr>stop_ctx := Some Canceled\<rparr>"

section \<open>Properties\<close>

subsection \<open>Image resolution\<close>

lemma fold_step_names:
  "snd (fold imageByFilter_step items (m, ns)) = ns @ map Image_Name items"
  by (induction items arbitrary: m ns) auto

lemma fold_step_frame:
  "k \<notin> Image_Name ` set items \<Longrightarrow> fst (fold imageByFilter_step items (m, ns)) k = m k"
  by (induction items arbitrary: m ns) auto

lemma fold_step_hit:
  "k \<in> Image_Name ` set items \<Longrightarrow>
   \<exists>img. img \<in> set items \<and> Image_Name img = k \<and>
         fst (fold imageByFilter_step items (m, ns)) k = Some img"
proof (induction items arbitrary: m ns)
  case Nil
  then show ?case by simp
next
  case (Cons x xs)
  have eq: "fold imageByFilter_step (x # xs) (m, ns) =
      fold imageByFilter_step xs (m(Image_Name x \<mapsto> x), ns @ [Image_Name x])"
    by simp
  show ?case
  proof (cases "k \<in> Image_Name ` set xs")
    case True
    from Cons.IH [OF True]
    obtain img where "img \<in> set xs" "Image_Name img = k"
      "fst (fold imageByFilter_step xs (m(Image_Name x \<mapsto> x), ns @ [Image_Name x])) k = Some img"
      by blast
    then show ?thesis unfolding eq by auto
  next
    case False
    with Cons.prems have kx: "k = Image_Name x" by auto
    have "fst (fold imageByFilter_step xs (m(Image_Name x \<mapsto> x), ns @ [Image_Name x])) k
        = (m(Image_Name x \<mapsto> x)) k"
      using False by (rule fold_step_frame)
    then show ?thesis unfolding eq using kx by auto
  qed
qed

lemma sorted_last_Max:
  fixes ys :: "'a::linorder list"
  assumes "sorted ys" and "ys \<noteq> []"
  shows "ys ! (length ys - 1) = Max (set ys)"
proof -
  have top: "y \<le> ys ! (length ys - 1)" if "y \<in> set ys" for y
  proof -
    from that obtain i where i: "i < length ys" "ys ! i = y"
      by (auto simp: in_set_conv_nth)
    then have "ys ! i \<le> ys ! (length ys - 1)"
      using assms(1) by (intro sorted_nth_mono) auto
    with i show ?thesis by simp
  qed
  have mem: "ys ! (length ys - 1) \<in> set ys"
    using assms(2) by simp
  show ?thesis
    using top mem by (intro Max_eqI [symmetric]) auto
qed

lemma sort_last_Max:
  fixes xs :: "'a::linorder list"
  assumes "xs \<noteq> []"
  shows "sort xs ! (length (sort xs) - 1) = Max (set xs)"
proof -
  have "sort xs \<noteq> []" using assms by (metis set_sort set_empty)
  from sorted_last_Max [OF sorted_sort this] show ?thesis by simp
qed

text \<open>
  C5. When the image listing answers with a list that is not empty, \<^verbatim>\<open>imageByFilter\<close>
  returns an image of the list whose name is the greatest of the names listed, in the
  bytewise lexicographic order; when the list is empty it returns the error
  \<^verbatim>\<open>no image found with filter\<close> followed by the filter.
\<close>

theorem imageByFilter_greatest:
  assumes "images_list (projectID p) flt = Inr items"
  shows "(items = [] \<longrightarrow>
            imageByFilter images_list p flt =
              Inl (Err (''no image found with filter '' @ flt))) \<and>
         (items \<noteq> [] \<longrightarrow>
            (\<exists>img. imageByFilter images_list p flt = Inr (Some img) \<and>
                   img \<in> set items \<and>
                   Image_Name img = Max (Image_Name ` set items)))"
proof (intro conjI impI)
  assume "items = []"
  with assms show "imageByFilter images_list p flt =
      Inl (Err (''no image found with filter '' @ flt))"
    by (simp add: imageByFilter_def)
next
  assume ne: "items \<noteq> []"
  obtain m ns where f: "fold imageByFilter_step items (Map.empty, []) = (m, ns)"
    by (cases "fold imageByFilter_step items (Map.empty, [])")
  from fold_step_names [of items Map.empty "[]"] f
  have ns: "ns = map Image_Name items" by simp
  let ?k = "sort ns ! (length (sort ns) - 1)"
  have k: "?k = Max (Image_Name ` set items)"
    using sort_last_Max [of ns] ne ns by simp
  have "?k \<in> Image_Name ` set items"
    unfolding k using ne by (intro Max_in) auto
  from fold_step_hit [OF this, of Map.empty "[]"] f
  obtain img where img: "img \<in> set items" "Image_Name img = ?k" "m ?k = Some img"
    by auto
  have "imageByFilter images_list p flt = Inr (m ?k)"
    using assms ne f by (simp add: imageByFilter_def Let_def)
  with img k show "\<exists>img. imageByFilter images_list p flt = Inr (Some img) \<and>
      img \<in> set items \<and> Image_Name img = Max (Image_Name ` set items)"
    by auto
qed

theorem imageByFilter_greatest_witness:
  "(\<exists>img. imageByFilter (\<lambda>project flt. Inr go_images) example_provider
             ''name eq ^travis-ci-go.+'' = Inr (Some img) \<and>
          Image_Name img = ''travis-ci-go-02'') \<and>
   imageByFilter (\<lambda>project flt. Inr []) example_provider ''name eq ^travis-ci-go.+'' =
     Inl (Err ''no image found with filter name eq ^travis-ci-go.+'')"
proof -
  have ne: "go_images \<noteq> []"
    by (simp add: go_images_def)
  have mx: "Max (Image_Name ` set go_images) = ''travis-ci-go-02''"
    by (simp add: go_images_def)
  have "\<exists>img. imageByFilter (\<lambda>project flt. Inr go_images) example_provider
             ''name eq ^travis-ci-go.+'' = Inr (Some img) \<and>
          img \<in> set go_images \<and> Image_Name img = Max (Image_Name ` set go_images)"
    using imageByFilter_greatest [of "\<lambda>project flt. Inr go_images" example_provider
      "''name eq ^travis-ci-go.+''" go_images] ne
    by blast
  then have a: "\<exists>img. imageByFilter (\<lambda>project flt. Inr go_images) example_provider
             ''name eq ^travis-ci-go.+'' = Inr (Some img) \<and>
          Image_Name img = ''travis-ci-go-02''"
    unfolding mx by blast
  have b: "imageByFilter (\<lambda>project flt. Inr []) example_provider ''name eq ^travis-ci-go.+'' =
     Inl (Err ''no image found with filter name eq ^travis-ci-go.+'')"
    using imageByFilter_greatest [of "\<lambda>project flt. Inr []" example_provider
      "''name eq ^travis-ci-go.+''" "[]"]
    by simp
  from a b show ?thesis ..
qed

lemma imageByFilter_yields:
  "isl (imageByFilter il p (''name eq ^travis-ci-'' @ lang @ ''.+'')) = (\<not> yields_image il p lang)"
proof (cases "il (projectID p) (''name eq ^travis-ci-'' @ lang @ ''.+'')")
  case (Inl err)
  then show ?thesis by (simp add: imageByFilter_def yields_image_def)
next
  case (Inr items)
  then show ?thesis
    by (cases "fold imageByFilter_step items (Map.empty, [])")
      (simp add: imageByFilter_def yields_image_def Let_def)
qed

text \<open>
  C6. The legacy selector's candidates are the value of \<^verbatim>\<open>LANGUAGE_MAP_\<close> followed by
  the upper-cased language when that option is set, else the language itself, and then
  the default language. It asks for the images of each candidate in turn, with the
  filter \<^verbatim>\<open>name eq ^travis-ci-{lang}.+\<close>, and returns what the first candidate with
  at least one image gives; when no candidate has an image it returns the error of the
  last one.
\<close>

theorem legacyImageSelect_first_match:
  "legacyImageSelect toUpper il p startAttributes =
     legacyImageSelect_spec toUpper il p startAttributes \<and>
   (find (yields_image il p) (legacy_candidates toUpper p startAttributes) = None \<longrightarrow>
      isl (legacyImageSelect toUpper il p startAttributes))"
proof -
  define c1 where "c1 =
    (if IsSet (cfg p) (''LANGUAGE_MAP_'' @ toUpper (Language startAttributes))
     then Get (cfg p) (''LANGUAGE_MAP_'' @ toUpper (Language startAttributes))
     else Language startAttributes)"
  define c2 where "c2 = defaultLanguage p"
  define F where "F lang = imageByFilter il p (''name eq ^travis-ci-'' @ lang @ ''.+'')" for lang
  have y: "yields_image il p lang = (\<not> isl (F lang))" for lang
    using imageByFilter_yields [of il p lang] by (simp add: F_def)
  have cands: "legacy_candidates toUpper p startAttributes = [c1, c2]"
    by (simp add: legacy_candidates_def c1_def c2_def)
  have loop: "legacyImageSelect_loop il p [c1, c2] (Inr None) =
      (case F c1 of Inr img \<Rightarrow> Inr img
       | Inl err \<Rightarrow> (case F c2 of Inr img \<Rightarrow> Inr img | Inl err \<Rightarrow> Inl err))"
    unfolding F_def
    by (simp add: imageForLanguage_def gceImageTravisCIPrefixFilter_def split: sum.splits)
  have "legacyImageSelect toUpper il p startAttributes =
      legacyImageSelect_loop il p [c1, c2] (Inr None)"
    unfolding legacyImageSelect_def Let_def c1_def c2_def
    by (simp only: if_distrib [of "\<lambda>xs. xs @ [defaultLanguage p]"] append.simps
        if_distrib [of "\<lambda>xs. legacyImageSelect_loop il p xs (Inr None)"] if_distrib [of "\<lambda>x. [x, defaultLanguage p]"])
  then have src: "legacyImageSelect toUpper il p startAttributes =
      (case F c1 of Inr img \<Rightarrow> Inr img
       | Inl err \<Rightarrow> (case F c2 of Inr img \<Rightarrow> Inr img | Inl err \<Rightarrow> Inl err))"
    by (simp only: loop)
  have spec: "legacyImageSelect_spec toUpper il p startAttributes =
      (if \<not> isl (F c1) then F c1 else if \<not> isl (F c2) then F c2 else F c2)"
    unfolding legacyImageSelect_spec_def Let_def cands
    by (simp add: y F_def)
  have eq: "legacyImageSelect toUpper il p startAttributes =
     legacyImageSelect_spec toUpper il p startAttributes"
    unfolding src spec by (cases "F c1"; cases "F c2") simp_all
  have "isl (legacyImageSelect toUpper il p startAttributes)"
    if "find (yields_image il p) (legacy_candidates toUpper p startAttributes) = None"
  proof -
    from that have "isl (F c1)" "isl (F c2)"
      unfolding cands by (simp_all add: y split: if_splits)
    then show ?thesis
      unfolding src by (cases "F c1"; cases "F c2") simp_all
  qed
  with eq show ?thesis by simp
qed

theorem legacyImageSelect_first_match_witness:
  "legacyImageSelect (\<lambda>s. ''OCAML'') minimal_only example_provider ocaml_job =
     Inr (Some \<lparr>Image_Name = ''travis-ci-minimal-20150101'',
                 Image_SelfLink = ''images/minimal''\<rparr>) \<and>
   isl (legacyImageSelect (\<lambda>s. ''OCAML'') (\<lambda>project flt. Inr []) example_provider ocaml_job)"
  using legacyImageSelect_first_match [of "\<lambda>s. ''OCAML''" minimal_only example_provider ocaml_job]
    legacyImageSelect_first_match [of "\<lambda>s. ''OCAML''" "\<lambda>project flt. Inr []"
      example_provider ocaml_job]
  by (simp add: legacyImageSelect_spec_def legacy_candidates_def yields_image_def minimal_only_def
      example_provider_def ocaml_job_def IsSet_def Get_def imageByFilter_def)

subsection \<open>Running the script\<close>

text \<open>
  C7. \<^verbatim>\<open>RunScript\<close> maps the outcome of \<^verbatim>\<open>bash ~/build.sh\<close> as follows. Once the SSH
  client, the session and the PTY are there: no error gives a completed result with exit
  code 0 and no error; a remote-exit error gives a completed result whose exit code is
  the exit status as a \<^verbatim>\<open>uint8\<close>, and no error; any other error gives a result that
  is not completed, with the error. An error of the dial, of the session or of the PTY
  request gives a result that is not completed, with that error.
\<close>

theorem RunScript_outcome:
  "(fst (sshClient env i) = None \<and> NewSession env = None \<and> RequestPty env = None \<longrightarrow>
      (Run env = None \<longrightarrow>
         fst (RunScript env i) = (\<lparr>Completed = True, ExitCode = 0\<rparr>, None)) \<and>
      (\<forall>status. Run env = Some (ExitError status) \<longrightarrow>
         fst (RunScript env i) =
           (\<lparr>Completed = True, ExitCode = word_of_int status\<rparr>, None)) \<and>
      (\<forall>err. Run env = Some err \<and> (\<forall>status. err \<noteq> ExitError status) \<longrightarrow>
         fst (RunScript env i) = (\<lparr>Completed = False, ExitCode = 0\<rparr>, Some err))) \<and>
   (\<forall>err. fst (sshClient env i) = Some err \<longrightarrow>
      fst (RunScript env i) = (\<lparr>Completed = False, ExitCode = 0\<rparr>, Some err)) \<and>
   (\<forall>err. fst (sshClient env i) = None \<and> NewSession env = Some err \<longrightarrow>
      fst (RunScript env i) = (\<lparr>Completed = False, ExitCode = 0\<rparr>, Some err)) \<and>
   (\<forall>err. fst (sshClient env i) = None \<and> NewSession env = None \<and> RequestPty env = Some err \<longrightarrow>
      fst (RunScript env i) = (\<lparr>Completed = False, ExitCode = 0\<rparr>, Some err))"
  by (cases "sshClient env i")
    (auto simp: RunScript_def split: option.splits error.splits)

lemma sshClient_run_exits: "fst (sshClient (run_exits r) example_instance) = None"
  by (simp add: sshClient_def refreshInstance_def run_exits_def ssh_env.truncate_def getIP_def
      running_instance_def example_instance_def)

theorem RunScript_outcome_witness:
  "fst (RunScript (run_exits (Some (ExitError 7))) example_instance) =
     (\<lparr>Completed = True, ExitCode = 7\<rparr>, None) \<and>
   fst (RunScript (run_exits None) example_instance) =
     (\<lparr>Completed = True, ExitCode = 0\<rparr>, None) \<and>
   fst (RunScript (run_exits (Some (Err ''EOF''))) example_instance) =
     (\<lparr>Completed = False, ExitCode = 0\<rparr>, Some (Err ''EOF'')) \<and>
   fst (RunScript dial_fails example_instance) =
     (\<lparr>Completed = False, ExitCode = 0\<rparr>,
      Some (Err ''dial tcp 1.2.3.4:22: connection refused''))"
proof -
  have d: "fst (sshClient dial_fails example_instance) =
      Some (Err ''dial tcp 1.2.3.4:22: connection refused'')"
    by (simp add: sshClient_def refreshInstance_def dial_fails_def ssh_env.truncate_def getIP_def
      running_instance_def example_instance_def)
  have r: "NewSession (run_exits r) = None" "RequestPty (run_exits r) = None"
    "Run (run_exits r) = r" for r
    by (simp_all add: run_exits_def)
  show ?thesis
    using RunScript_outcome [of "run_exits (Some (ExitError 7))" example_instance]
      RunScript_outcome [of "run_exits None" example_instance]
      RunScript_outcome [of "run_exits (Some (Err ''EOF''))" example_instance]
      RunScript_outcome [of dial_fails example_instance]
      sshClient_run_exits d r
    by simp
qed

subsection \<open>Provider construction\<close>

lemma isl_bind:
  "isl (case m of Inl e \<Rightarrow> Inl e | Inr x \<Rightarrow> f x) = (isl m \<or> isl (f (projr m)))"
  by (cases m) auto

lemma writeback_other:
  "key \<noteq> ''ZONE'' \<Longrightarrow> key \<noteq> ''MACHINE_TYPE'' \<Longrightarrow> key \<noteq> ''NETWORK'' \<Longrightarrow>
   newGCEProvider_writeback pc key = pc key"
  by (simp add: newGCEProvider_writeback_def Set_def Let_def)

lemma writeback_IsSet:
  "key \<noteq> ''ZONE'' \<Longrightarrow> key \<noteq> ''MACHINE_TYPE'' \<Longrightarrow> key \<noteq> ''NETWORK'' \<Longrightarrow>
   IsSet (newGCEProvider_writeback pc) key = IsSet pc key"
  by (simp add: IsSet_def writeback_other)

lemma writeback_Get:
  "key \<noteq> ''ZONE'' \<Longrightarrow> key \<noteq> ''MACHINE_TYPE'' \<Longrightarrow> key \<noteq> ''NETWORK'' \<Longrightarrow>
   Get (newGCEProvider_writeback pc) key = Get pc key"
  by (simp add: Get_def writeback_other)

lemma bind_Inr_iff:
  "((case m of Inl e \<Rightarrow> Inl e | Inr x \<Rightarrow> f x) = Inr p) = (\<exists>x. m = Inr x \<and> f x = Inr p)"
  by (cases m) auto

lemma if_Inl_Inr: "((if c then Inl e else g) = Inr p) = (\<not> c \<and> g = Inr p)"
  by simp

lemma options_Inr:
  assumes "newGCEProvider_options env pc cl pr sg pk = Inr p"
  shows "cfg p = pc \<and>
    DiskSize (ic p) =
      (if IsSet pc ''DISK_SIZE'' then
               (case ParseInt env (Get pc ''DISK_SIZE'') of
                  Inr ds \<Rightarrow> ds
                | Inl err \<Rightarrow> 20)
             else 20)"
  using assms unfolding newGCEProvider_options_def Let_def defaultGCEDiskSize_def
  by (clarsimp simp: bind_Inr_iff if_Inl_Inr)

lemma options_ok:
  "(\<not> isl (newGCEProvider_options env pc cl pr sg pk)) =
   ((if IsSet pc ''BOOT_POLL_SLEEP''
       then \<not> isl (ParseDuration env (Get pc ''BOOT_POLL_SLEEP'')) else True) \<and>
      (if IsSet pc ''UPLOAD_RETRIES''
       then \<not> isl (ParseUint env (Get pc ''UPLOAD_RETRIES'')) else True) \<and>
      (if IsSet pc ''UPLOAD_RETRY_SLEEP''
       then \<not> isl (ParseDuration env (Get pc ''UPLOAD_RETRY_SLEEP'')) else True) \<and>
      (if IsSet pc ''AUTO_IMPLODE''
       then \<not> isl (ParseBool env (Get pc ''AUTO_IMPLODE'')) else True) \<and>
      (if IsSet pc ''HARD_TIMEOUT_MINUTES''
       then \<not> isl (ParseInt env (Get pc ''HARD_TIMEOUT_MINUTES'')) else True) \<and>
    (let t = (if IsSet pc ''IMAGE_SELECTOR_TYPE'' then Get pc ''IMAGE_SELECTOR_TYPE''
               else ''legacy'')
      in t = ''legacy'' \<or>
         ((t = ''env'' \<or> t = ''api'') \<and>
          \<not> isl (buildGCEImageSelector env t pc))))"
  unfolding newGCEProvider_options_def Let_def defaultGCEImageSelectorType_def
  by (simp add: isl_bind isl_map_sum if_distrib [of isl] cong: if_cong)

lemma newGCEProvider_ok:
  "(\<not> isl (fst (newGCEProvider env pc))) =
     (\<not> isl (newGCEProvider_keys env pc) \<and> options_parse env pc \<and> selector_builds env pc)"
proof (cases "newGCEProvider_keys env pc")
  case (Inl err)
  then show ?thesis by (simp add: newGCEProvider_def)
next
  case (Inr keys)
  obtain cl pr sg pk where k: "keys = (cl, pr, sg, pk)" by (cases keys)
  have "fst (newGCEProvider env pc) =
      newGCEProvider_options env (newGCEProvider_writeback pc) cl pr sg pk"
    using Inr k by (simp add: newGCEProvider_def Let_def)
  then show ?thesis
    using Inr
    by (simp only: options_ok options_parse_def selector_builds_def)
       (simp add: writeback_IsSet writeback_Get)
qed

lemma newGCEProvider_Inr:
  assumes "fst (newGCEProvider env pc) = Inr p"
  shows "snd (newGCEProvider env pc) = newGCEProvider_writeback pc"
    and "cfg p = newGCEProvider_writeback pc"
    and "DiskSize (ic p) =
      (if IsSet pc ''DISK_SIZE'' then
         (case ParseInt env (Get pc ''DISK_SIZE'') of Inr ds \<Rightarrow> ds | Inl err \<Rightarrow> 20)
       else 20)"
proof -
  from assms obtain cl pr sg pk where k: "newGCEProvider_keys env pc = Inr (cl, pr, sg, pk)"
    by (cases "newGCEProvider_keys env pc") (auto simp: newGCEProvider_def)
  with assms have o: "newGCEProvider_options env (newGCEProvider_writeback pc) cl pr sg pk = Inr p"
    by (simp add: newGCEProvider_def Let_def)
  show "snd (newGCEProvider env pc) = newGCEProvider_writeback pc"
    using k by (simp add: newGCEProvider_def Let_def)
  from options_Inr [OF o] show "cfg p = newGCEProvider_writeback pc" by simp
  from options_Inr [OF o] show "DiskSize (ic p) =
      (if IsSet pc ''DISK_SIZE'' then
         (case ParseInt env (Get pc ''DISK_SIZE'') of Inr ds \<Rightarrow> ds | Inl err \<Rightarrow> 20)
       else 20)"
    by (simp add: writeback_IsSet writeback_Get)
qed

text \<open>
  C4. When one of \<^verbatim>\<open>BOOT_POLL_SLEEP\<close>, \<^verbatim>\<open>UPLOAD_RETRIES\<close>, \<^verbatim>\<open>UPLOAD_RETRY_SLEEP\<close>,
  \<^verbatim>\<open>AUTO_IMPLODE\<close> and \<^verbatim>\<open>HARD_TIMEOUT_MINUTES\<close> is set to a value its parser rejects,
  the constructor returns an error. A \<^verbatim>\<open>DISK_SIZE\<close> that its parser rejects is not an
  error: the constructor then fails exactly when the loading of the keys, one of those
  five options or the image selector fails, and the provider it returns has the disk
  size 20.
\<close>

theorem malformed_options:
  "((IsSet pc ''BOOT_POLL_SLEEP'' \<and> isl (ParseDuration env (Get pc ''BOOT_POLL_SLEEP''))) \<or>
    (IsSet pc ''UPLOAD_RETRIES'' \<and> isl (ParseUint env (Get pc ''UPLOAD_RETRIES''))) \<or>
    (IsSet pc ''UPLOAD_RETRY_SLEEP'' \<and> isl (ParseDuration env (Get pc ''UPLOAD_RETRY_SLEEP''))) \<or>
    (IsSet pc ''AUTO_IMPLODE'' \<and> isl (ParseBool env (Get pc ''AUTO_IMPLODE''))) \<or>
    (IsSet pc ''HARD_TIMEOUT_MINUTES'' \<and> isl (ParseInt env (Get pc ''HARD_TIMEOUT_MINUTES'')))
    \<longrightarrow> isl (fst (newGCEProvider env pc))) \<and>
   (IsSet pc ''DISK_SIZE'' \<and> isl (ParseInt env (Get pc ''DISK_SIZE'')) \<longrightarrow>
      (\<forall>p. fst (newGCEProvider env pc) = Inr p \<longrightarrow> DiskSize (ic p) = 20) \<and>
      (isl (fst (newGCEProvider env pc)) =
         (isl (newGCEProvider_keys env pc) \<or> \<not> options_parse env pc \<or>
          \<not> selector_builds env pc)))"
proof (intro conjI impI allI)
  assume "(IsSet pc ''BOOT_POLL_SLEEP'' \<and> isl (ParseDuration env (Get pc ''BOOT_POLL_SLEEP''))) \<or>
    (IsSet pc ''UPLOAD_RETRIES'' \<and> isl (ParseUint env (Get pc ''UPLOAD_RETRIES''))) \<or>
    (IsSet pc ''UPLOAD_RETRY_SLEEP'' \<and> isl (ParseDuration env (Get pc ''UPLOAD_RETRY_SLEEP''))) \<or>
    (IsSet pc ''AUTO_IMPLODE'' \<and> isl (ParseBool env (Get pc ''AUTO_IMPLODE''))) \<or>
    (IsSet pc ''HARD_TIMEOUT_MINUTES'' \<and> isl (ParseInt env (Get pc ''HARD_TIMEOUT_MINUTES'')))"
  then have "\<not> options_parse env pc"
    by (auto simp: options_parse_def)
  with newGCEProvider_ok [of env pc] show "isl (fst (newGCEProvider env pc))"
    by blast
next
  fix p
  assume bad: "IsSet pc ''DISK_SIZE'' \<and> isl (ParseInt env (Get pc ''DISK_SIZE''))"
    and ok: "fst (newGCEProvider env pc) = Inr p"
  from newGCEProvider_Inr(3) [OF ok] bad show "DiskSize (ic p) = 20"
    by (auto simp: isl_def)
next
  show "isl (fst (newGCEProvider env pc)) =
         (isl (newGCEProvider_keys env pc) \<or> \<not> options_parse env pc \<or>
          \<not> selector_builds env pc)"
    using newGCEProvider_ok [of env pc] by blast
qed

text \<open>
  C8. A constructor that returns a provider leaves \<^verbatim>\<open>ZONE\<close>, \<^verbatim>\<open>MACHINE_TYPE\<close> and
  \<^verbatim>\<open>NETWORK\<close> set on the configuration, each to the value it was set to, and when it
  was not set to its default \<^verbatim>\<open>us-central1-a\<close>, \<^verbatim>\<open>n1-standard-2\<close> or \<^verbatim>\<open>default\<close>; the
  provider keeps this configuration, so a \<^verbatim>\<open>Get\<close> of one of the three options after
  the construction reads the resolved value.
\<close>

theorem config_writeback:
  assumes "fst (newGCEProvider env pc) = Inr p"
  shows "cfg p = snd (newGCEProvider env pc) \<and>
    IsSet (cfg p) ''ZONE'' \<and> IsSet (cfg p) ''MACHINE_TYPE'' \<and> IsSet (cfg p) ''NETWORK'' \<and>
    Get (cfg p) ''ZONE'' = (if IsSet pc ''ZONE'' then Get pc ''ZONE'' else ''us-central1-a'') \<and>
    Get (cfg p) ''MACHINE_TYPE'' =
      (if IsSet pc ''MACHINE_TYPE'' then Get pc ''MACHINE_TYPE'' else ''n1-standard-2'') \<and>
    Get (cfg p) ''NETWORK'' = (if IsSet pc ''NETWORK'' then Get pc ''NETWORK'' else ''default'')"
  using newGCEProvider_Inr(1,2) [OF assms]
  by (simp add: newGCEProvider_writeback_def Let_def Set_def Get_def IsSet_def
      defaultGCEZone_def defaultGCEMachineType_def defaultGCENetwork_def)

lemma ex_keys: "newGCEProvider_keys example_env bad_disk_size =
   Inr (\<lparr>ClientEmail = ''ci@example.org'', PrivateKey = ''key''\<rparr>, ''travis-ci'',
        ''contents of id_rsa'', ''contents of id_rsa.pub'')"
  by (simp add: newGCEProvider_keys_def buildGoogleComputeService_def loadGoogleAccountJSON_def
      example_env_def bad_disk_size_def required_options_def IsSet_def Get_def)

lemma ex_builds: "\<not> isl (fst (newGCEProvider example_env bad_disk_size))"
  by (simp add: newGCEProvider_ok ex_keys)
    (simp add: options_parse_def selector_builds_def
      bad_disk_size_def required_options_def IsSet_def Get_def)

theorem malformed_options_witness:
  "(\<exists>p. fst (newGCEProvider example_env bad_disk_size) = Inr p \<and> DiskSize (ic p) = 20) \<and>
   Get bad_disk_size ''DISK_SIZE'' = ''twenty'' \<and>
   isl (ParseInt example_env ''twenty'') \<and>
   Get bad_upload_retries ''UPLOAD_RETRIES'' = ''many'' \<and>
   isl (fst (newGCEProvider example_env bad_upload_retries))"
proof -
  have set: "IsSet bad_disk_size ''DISK_SIZE''" "Get bad_disk_size ''DISK_SIZE'' = ''twenty''"
    "IsSet bad_upload_retries ''UPLOAD_RETRIES''"
    "Get bad_upload_retries ''UPLOAD_RETRIES'' = ''many''"
    by (simp_all add: bad_disk_size_def bad_upload_retries_def IsSet_def Get_def)
  have bad: "isl (ParseInt example_env ''twenty'')" "isl (ParseUint example_env ''many'')"
    by (simp_all add: example_env_def)
  obtain p where p: "fst (newGCEProvider example_env bad_disk_size) = Inr p"
    using ex_builds by (cases "fst (newGCEProvider example_env bad_disk_size)") auto
  show ?thesis
    using malformed_options [of bad_disk_size example_env]
      malformed_options [of bad_upload_retries example_env] set bad p
    by simp
qed

theorem config_writeback_witness:
  "\<not> isl (fst (newGCEProvider example_env bad_disk_size)) \<and>
   Get (snd (newGCEProvider example_env bad_disk_size)) ''ZONE'' = ''europe-west1-b'' \<and>
   Get (snd (newGCEProvider example_env bad_disk_size)) ''MACHINE_TYPE'' = ''n1-standard-2'' \<and>
   Get (snd (newGCEProvider example_env bad_disk_size)) ''NETWORK'' = ''default''"
proof -
  obtain p where p: "fst (newGCEProvider example_env bad_disk_size) = Inr p"
    using ex_builds by (cases "fst (newGCEProvider example_env bad_disk_size)") auto
  have "IsSet bad_disk_size ''ZONE''" "Get bad_disk_size ''ZONE'' = ''europe-west1-b''"
    "\<not> IsSet bad_disk_size ''MACHINE_TYPE''" "\<not> IsSet bad_disk_size ''NETWORK''"
    by (simp_all add: bad_disk_size_def required_options_def IsSet_def Get_def)
  with config_writeback [OF p] ex_builds show ?thesis by auto
qed

subsection \<open>Uploading the script\<close>

lemma sshClient_provider: "i_provider (snd (sshClient env i)) = i_provider i"
  by (simp add: sshClient_def refreshInstance_def Let_def split: sum.splits)

lemma attempt_provider:
  "i_provider (fst (snd (uploadScriptAttempt env i script fs))) = i_provider i"
  using sshClient_provider [of env i]
  by (cases "sshClient env i")
    (auto simp: uploadScriptAttempt_def sftp_Create_def file_Write_def
      split: option.splits prod.splits)

lemma attempt_file_stays:
  "fs \<noteq> None \<Longrightarrow> snd (snd (uploadScriptAttempt env i script fs)) \<noteq> None"
  by (cases "sshClient env i")
    (auto simp: uploadScriptAttempt_def sftp_Create_def file_Write_def
      split: option.splits prod.splits)

lemma sshClient_reaches:
  "reaches_stale_check env \<Longrightarrow> fst (sshClient env i) = None"
  by (auto simp: reaches_stale_check_def sshClient_def refreshInstance_def getIP_def
      ssh_env.truncate_def Let_def split: sum.splits)

lemma attempt_stale:
  "reaches_stale_check env \<Longrightarrow> fs \<noteq> None \<Longrightarrow>
   fst (uploadScriptAttempt env i script fs) = Some ErrStaleVM \<and>
   snd (snd (uploadScriptAttempt env i script fs)) = fs"
  using sshClient_reaches [of env i]
  by (cases "sshClient env i")
    (auto simp: uploadScriptAttempt_def sftp_Lstat_def reaches_stale_check_def
      split: option.splits)

lemma attempt_partial_write:
  "reaches_stale_check env \<Longrightarrow> Create env = None \<Longrightarrow> Write env = Some (werr, written) \<Longrightarrow>
   fst (uploadScriptAttempt env i script None) = Some werr \<and>
   snd (snd (uploadScriptAttempt env i script None)) = Some written"
  using sshClient_reaches [of env i]
  by (cases "sshClient env i")
    (auto simp: uploadScriptAttempt_def sftp_Lstat_def sftp_Create_def file_Write_def
      reaches_stale_check_def split: option.splits)

lemma word_succ_gt: "(c + 1 > n) = (unat c \<ge> unat n)" if "c \<noteq> - 1" for c n :: "64 word"
proof -
  have "1 + c \<noteq> 0"
    using that by (simp add: add_eq_0_iff)
  then have "unat (1 + c) = Suc (unat c)"
    by (rule unatSuc)
  then show ?thesis by (auto simp: word_less_nat_alt add.commute)
qed

lemma uploader_step_fail:
  assumes "ctx_Err it = None"
    and "uploadScriptAttempt (attempt it) (inst st) script (guest st) = (Some err, i, fs)"
  shows "uploader script st (it # its) =
     (if errCount st + 1 > uploadRetries (i_provider (inst st))
      then Some (Some err, st\<lparr>inst := i, guest := fs, attempts := Suc (attempts st),
                            errCount := errCount st + 1\<rparr>)
      else uploader script (st\<lparr>inst := i, guest := fs, attempts := Suc (attempts st),
                              errCount := errCount st + 1, sleeps := Suc (sleeps st)\<rparr>) its)"
proof -
  have "i_provider i = i_provider (inst st)"
    using attempt_provider [of "attempt it" "inst st" script "guest st"] assms(2) by simp
  then show ?thesis using assms by (simp add: Let_def)
qed

lemma uploader_all_fail:
  assumes "its \<noteq> []"
    and "unat (errCount st) + length its = Suc (unat n)"
    and "uploadRetries (i_provider (inst st)) = n"
    and "n \<noteq> - 1"
    and "\<forall>it \<in> set its. ctx_Err it = None"
    and "\<forall>r \<in> set (attempt_errors (inst st) script (guest st) (map attempt its)). r \<noteq> None"
  shows "\<exists>st'. uploader script st (its @ rest) =
             Some (last (attempt_errors (inst st) script (guest st) (map attempt its)), st') \<and>
           attempts st' = attempts st + length its \<and>
           Suc (sleeps st') = sleeps st + length its \<and>
           i_provider (inst st') = i_provider (inst st)"
  using assms
proof (induction its arbitrary: st rule: list_nonempty_induct)
  case (single it)
  obtain r i fs where a: "uploadScriptAttempt (attempt it) (inst st) script (guest st) = (r, i, fs)"
    by (cases "uploadScriptAttempt (attempt it) (inst st) script (guest st)")
  with single.prems obtain err where r: "r = Some err" by auto
  have c: "unat (errCount st) = unat n" using single.prems by simp
  then have "errCount st = n" by (simp add: word_unat_eq_iff)
  then have "errCount st \<noteq> - 1" using single.prems(3) by simp
  then have gt: "errCount st + 1 > n" using c by (simp add: word_succ_gt)
  have prov: "i_provider i = i_provider (inst st)"
    using attempt_provider [of "attempt it" "inst st" script "guest st"] a by simp
  show ?case
    using uploader_step_fail [of it st script err i fs rest] single.prems a r gt prov
    by simp
next
  case (cons it its)
  obtain r i fs where a: "uploadScriptAttempt (attempt it) (inst st) script (guest st) = (r, i, fs)"
    by (cases "uploadScriptAttempt (attempt it) (inst st) script (guest st)")
  with cons.prems obtain err where r: "r = Some err" by auto
  have len: "length its > 0" using cons.hyps by simp
  have c: "unat (errCount st) < unat n" using cons.prems(1) len by (simp del: length_greater_0_conv)
  then have ne: "errCount st \<noteq> - 1"
    by (metis not_less word_le_nat_alt word_order.extremum)
  then have ngt: "\<not> errCount st + 1 > n" using c by (simp add: word_succ_gt)
  have suc: "unat (errCount st + 1) = Suc (unat (errCount st))"
    using ne by (metis add.commute add_eq_0_iff unatSuc)
  have prov: "i_provider i = i_provider (inst st)"
    using attempt_provider [of "attempt it" "inst st" script "guest st"] a by simp
  let ?st1 = "st\<lparr>inst := i, guest := fs, attempts := Suc (attempts st),
                 errCount := errCount st + 1, sleeps := Suc (sleeps st)\<rparr>"
  have step: "uploader script st ((it # its) @ rest) = uploader script ?st1 (its @ rest)"
    using uploader_step_fail [of it st script err i fs "its @ rest"] cons.prems a r ngt
    by simp
  have errs: "attempt_errors (inst st) script (guest st) (map attempt (it # its)) =
      r # attempt_errors i script fs (map attempt its)"
    using a by simp
  have ne_errs: "attempt_errors i script fs (map attempt its) \<noteq> []"
    using cons.hyps by (cases its) (auto split: prod.splits)
  have "\<exists>st'. uploader script ?st1 (its @ rest) =
             Some (last (attempt_errors (inst ?st1) script (guest ?st1) (map attempt its)), st') \<and>
           attempts st' = attempts ?st1 + length its \<and>
           Suc (sleeps st') = sleeps ?st1 + length its \<and>
           i_provider (inst st') = i_provider (inst ?st1)"
  proof (rule cons.IH)
    show "unat (errCount ?st1) + length its = Suc (unat n)"
      using cons.prems(1) suc by simp
    show "uploadRetries (i_provider (inst ?st1)) = n"
      using cons.prems(2) prov by simp
    show "n \<noteq> - 1" by fact
    show "\<forall>it\<in>set its. ctx_Err it = None" using cons.prems(4) by simp
    show "\<forall>r\<in>set (attempt_errors (inst ?st1) script (guest ?st1) (map attempt its)). r \<noteq> None"
      using cons.prems(5) unfolding errs by simp
  qed
  then show ?case
    unfolding step errs using ne_errs prov by auto
qed

lemma sshClient_any_instance: "fst (sshClient env i) = fst (sshClient env j)"
  by (simp add: sshClient_def refreshInstance_def getIP_def Let_def split: sum.splits)

lemma attempt_no_connection:
  "fst (sshClient env i) = Some err \<Longrightarrow>
   fst (uploadScriptAttempt env i script fs) = Some err \<and>
   snd (snd (uploadScriptAttempt env i script fs)) = fs"
  by (cases "sshClient env i") (auto simp: uploadScriptAttempt_def)

lemma attempt_errors_length [simp]: "length (attempt_errors i script fs envs) = length envs"
  by (induction envs arbitrary: i fs) (auto split: prod.splits)

lemma attempt_errors_stale:
  "fs \<noteq> None \<Longrightarrow> k < length envs \<Longrightarrow> reaches_stale_check (envs ! k) \<Longrightarrow>
   attempt_errors i script fs envs ! k = Some ErrStaleVM"
proof (induction envs arbitrary: i fs k)
  case Nil
  then show ?case by simp
next
  case (Cons env envs)
  obtain r i' fs' where a: "uploadScriptAttempt env i script fs = (r, i', fs')"
    by (cases "uploadScriptAttempt env i script fs")
  have fs': "fs' \<noteq> None"
    using attempt_file_stays [OF Cons.prems(1), of env i script] a by simp
  show ?case
  proof (cases k)
    case 0
    with Cons.prems attempt_stale [of env fs i script] a show ?thesis by simp
  next
    case (Suc k')
    with Cons.prems Cons.IH [OF fs', of k' i'] a show ?thesis by simp
  qed
qed

lemma attempt_errors_no_connection:
  "k < length envs \<Longrightarrow> fst (sshClient (envs ! k) j) = Some err \<Longrightarrow>
   attempt_errors i script fs envs ! k = Some err"
proof (induction envs arbitrary: i fs k)
  case Nil
  then show ?case by simp
next
  case (Cons env envs)
  obtain r i' fs' where a: "uploadScriptAttempt env i script fs = (r, i', fs')"
    by (cases "uploadScriptAttempt env i script fs")
  show ?case
  proof (cases k)
    case 0
    with Cons.prems have "fst (sshClient env i) = Some err"
      using sshClient_any_instance [of env i j] by simp
    from attempt_no_connection [OF this, of script fs] a 0 show ?thesis by simp
  next
    case (Suc k')
    with Cons.prems Cons.IH [of k' i' fs'] a show ?thesis by simp
  qed
qed

lemma attempt_errors_all_stale:
  "fs \<noteq> None \<Longrightarrow> \<forall>env \<in> set envs. reaches_stale_check env \<Longrightarrow>
   attempt_errors i script fs envs = replicate (length envs) (Some ErrStaleVM)"
  by (rule nth_equalityI) (auto simp: attempt_errors_stale)

lemma uploader_surfaces_last_error:
  assumes "uploadRetries (i_provider i) \<noteq> - 1"
    and "length its = Suc (unat (uploadRetries (i_provider i)))"
    and "\<forall>it \<in> set its. ctx_Err it = None"
    and "\<forall>r \<in> set (attempt_errors i script fs (map attempt its)). r \<noteq> None"
  shows "\<exists>st'. UploadScript i script fs (its @ rest) =
             Some (last (attempt_errors i script fs (map attempt its)), st') \<and>
           attempts st' = Suc (unat (uploadRetries (i_provider i))) \<and>
           sleeps st' = unat (uploadRetries (i_provider i))"
proof -
  let ?st = "\<lparr>errCount = 0, inst = i, guest = fs, attempts = 0, sleeps = 0\<rparr>"
  have ne: "its \<noteq> []" using assms(2) by auto
  have "\<exists>st'. uploader script ?st (its @ rest) =
             Some (last (attempt_errors (inst ?st) script (guest ?st) (map attempt its)), st') \<and>
           attempts st' = attempts ?st + length its \<and>
           Suc (sleeps st') = sleeps ?st + length its \<and>
           i_provider (inst st') = i_provider (inst ?st)"
    using ne assms by (intro uploader_all_fail [where n = "uploadRetries (i_provider i)"]) auto
  then show ?thesis
    using assms(2) by (auto simp: UploadScript_def)
qed

text \<open>
  C3. Let \<^verbatim>\<open>UPLOAD_RETRIES\<close> be \<open>n\<close>, less than the greatest \<^verbatim>\<open>uint64\<close>. When the
  context is not done and the first \<open>n + 1\<close> attempts all fail, \<^verbatim>\<open>UploadScript\<close>
  makes exactly \<open>n + 1\<close> attempts, sleeps \<open>n\<close> times between them and returns the
  error of the last attempt.
\<close>

theorem UploadScript_retry_bound:
  assumes "uploadRetries (i_provider i) \<noteq> - 1"
    and "length its = Suc (unat (uploadRetries (i_provider i)))"
    and "\<forall>it \<in> set its. ctx_Err it = None"
    and "\<forall>r \<in> set (attempt_errors i script fs (map attempt its)). r \<noteq> None"
  shows "\<exists>st'. UploadScript i script fs (its @ rest) =
             Some (last (attempt_errors i script fs (map attempt its)), st') \<and>
           attempts st' = Suc (unat (uploadRetries (i_provider i))) \<and>
           sleeps st' = unat (uploadRetries (i_provider i))"
  using assms by (rule uploader_surfaces_last_error)


lemma reaches_connected: "reaches_stale_check connected"
  by (simp add: reaches_stale_check_def connected_def running_instance_def)

lemma reaches_write_breaks: "reaches_stale_check write_breaks"
  by (simp add: reaches_stale_check_def write_breaks_def connected_def running_instance_def)

lemma attempt_refused:
  "uploadScriptAttempt refused i script fs =
     (Some (Err ''dial tcp 1.2.3.4:22: connection refused''),
      i\<lparr>i_instance := running_instance\<rparr>, fs)"
  by (simp add: uploadScriptAttempt_def sshClient_def refreshInstance_def getIP_def
      ssh_env.truncate_def refused_def connected_def running_instance_def)

lemma example_retries: "uploadRetries (i_provider example_instance) = 3"
  by (simp add: example_instance_def example_provider_def)

theorem UploadScript_retry_bound_witness:
  "uploadRetries (i_provider example_instance) = 3 \<and>
   (\<exists>st'. UploadScript example_instance ''echo ok'' None
        [iter refused, iter refused, iter refused, iter refused] =
      Some (Some (Err ''dial tcp 1.2.3.4:22: connection refused''), st') \<and>
      attempts st' = 4 \<and> sleeps st' = 3)"
  using UploadScript_retry_bound [of example_instance
      "[iter refused, iter refused, iter refused, iter refused]" "''echo ok''" None "[]"]
  by (simp add: example_retries iter_def attempt_refused)

lemma uploader_never_surfaces:
  "uploadRetries (i_provider (inst st)) = - 1 \<Longrightarrow>
   uploader script st (replicate k (iter refused)) = None"
proof (induction k arbitrary: st)
  case 0
  then show ?case by simp
next
  case (Suc k)
  let ?st1 = "st\<lparr>inst := (inst st)\<lparr>i_instance := running_instance\<rparr>, guest := guest st,
     attempts := Suc (attempts st), errCount := errCount st + 1, sleeps := Suc (sleeps st)\<rparr>"
  have "uploader script st (replicate (Suc k) (iter refused)) =
      uploader script ?st1 (replicate k (iter refused))"
    using Suc.prems
    by (simp add: attempt_refused iter_def Let_def)
  also have "\<dots> = None"
    using Suc.prems by (intro Suc.IH) simp
  finally show ?case .
qed

lemma max_retries: "uploadRetries (i_provider max_retries_instance) = - 1"
  by (simp add: max_retries_instance_def)

theorem UploadScript_retry_bound_counterexample:
  "uploadRetries (i_provider max_retries_instance) = 18446744073709551615 \<and>
   UploadScript max_retries_instance ''echo ok'' None
     (replicate (2 ^ 64) (iter refused)) = None"
proof
  show "uploadRetries (i_provider max_retries_instance) = 18446744073709551615"
    unfolding max_retries by simp
  show "UploadScript max_retries_instance ''echo ok'' None
     (replicate (2 ^ 64) (iter refused)) = None"
    unfolding UploadScript_def
    by (rule uploader_never_surfaces) (simp add: max_retries)
qed




lemma attempt_errors_after_partial_write:
  assumes "reaches_stale_check e1" and "Create e1 = None" and "Write e1 = Some (werr, written)"
  shows "\<exists>i'. attempt_errors i script None (e1 # later) =
            Some werr # attempt_errors i' script (Some written) later"
proof -
  obtain r i' fs' where a: "uploadScriptAttempt e1 i script None = (r, i', fs')"
    by (cases "uploadScriptAttempt e1 i script None")
  with attempt_partial_write [OF assms, of i script] have "r = Some werr" "fs' = Some written"
    by simp_all
  with a show ?thesis by auto
qed

text \<open>
  C9. Let an attempt create \<^verbatim>\<open>build.sh\<close> on a guest that had none and fail while
  writing it. Of the attempts that follow, each one that gets as far as the stale check
  (SSH and SFTP established, \<^verbatim>\<open>Lstat\<close> answered) returns \<^verbatim>\<open>ErrStaleVM\<close>, since the
  file the earlier attempt left is there; one whose SSH connection fails returns the
  error of the connection instead.
\<close>

theorem partial_write_then_stale:
  assumes "reaches_stale_check e1" and "Create e1 = None" and "Write e1 = Some (werr, written)"
  shows "attempt_errors i script None (e1 # later) ! 0 = Some werr \<and>
    (\<forall>k<length later. reaches_stale_check (later ! k) \<longrightarrow>
       attempt_errors i script None (e1 # later) ! Suc k = Some ErrStaleVM) \<and>
    (\<forall>k<length later. \<forall>err. fst (sshClient (later ! k) i) = Some err \<longrightarrow>
       attempt_errors i script None (e1 # later) ! Suc k = Some err)"
proof -
  obtain i' where errs: "attempt_errors i script None (e1 # later) =
      Some werr # attempt_errors i' script (Some written) later"
    using attempt_errors_after_partial_write [OF assms] by blast
  have first: "attempt_errors i script None (e1 # later) ! 0 = Some werr"
    unfolding errs by simp
  have stale: "attempt_errors i script None (e1 # later) ! Suc k = Some ErrStaleVM"
    if "k < length later" "reaches_stale_check (later ! k)" for k
    unfolding errs using that by (simp add: attempt_errors_stale)
  have conn: "attempt_errors i script None (e1 # later) ! Suc k = Some err"
    if "k < length later" "fst (sshClient (later ! k) i) = Some err" for k err
    unfolding errs using that by (simp add: attempt_errors_no_connection [where j = i])
  show ?thesis using first stale conn by blast
qed

text \<open>
  The call as a whole: with at least one retry, \<^verbatim>\<open>UPLOAD_RETRIES\<close> less than the greatest
  \<^verbatim>\<open>uint64\<close>, the context not done and every retry at the stale check, the call makes
  all its attempts and returns \<^verbatim>\<open>ErrStaleVM\<close>, not the error of the write.
\<close>

lemma partial_write_call_ends_stale:
  assumes "reaches_stale_check e1" and "Create e1 = None" and "Write e1 = Some (werr, written)"
    and n: "uploadRetries (i_provider i) \<noteq> - 1"
    and len: "length later = unat (uploadRetries (i_provider i))"
    and ne: "later \<noteq> []"
    and all: "\<forall>e \<in> set later. reaches_stale_check e"
  shows "\<exists>st'. UploadScript i script None (map iter (e1 # later) @ rest) =
                Some (Some ErrStaleVM, st') \<and> attempts st' = Suc (length later)"
proof -
  obtain i' where errs: "attempt_errors i script None (e1 # later) =
      Some werr # attempt_errors i' script (Some written) later"
    using attempt_errors_after_partial_write [OF assms(1-3)] by blast
  have m: "map attempt (map iter (e1 # later)) = e1 # later"
    by (simp add: iter_def comp_def)
  have full: "attempt_errors i script None (e1 # later) =
      Some werr # replicate (length later) (Some ErrStaleVM)"
    unfolding errs using all by (simp add: attempt_errors_all_stale)
  have "\<exists>st'. UploadScript i script None (map iter (e1 # later) @ rest) =
           Some (last (attempt_errors i script None (map attempt (map iter (e1 # later)))), st') \<and>
         attempts st' = Suc (unat (uploadRetries (i_provider i))) \<and>
         sleeps st' = unat (uploadRetries (i_provider i))"
  proof (rule uploader_surfaces_last_error)
    show "uploadRetries (i_provider i) \<noteq> - 1" by fact
    show "length (map iter (e1 # later)) = Suc (unat (uploadRetries (i_provider i)))"
      using len by simp
    show "\<forall>it\<in>set (map iter (e1 # later)). ctx_Err it = None"
      by (simp add: iter_def)
    show "\<forall>r\<in>set (attempt_errors i script None (map attempt (map iter (e1 # later)))). r \<noteq> None"
      unfolding m full by simp
  qed
  then show ?thesis
    unfolding m full using ne len by auto
qed

lemma write_breaks_fields:
  "Create write_breaks = None" "Write write_breaks = Some (Err ''connection lost'', ''#!/bin'')"
  by (simp_all add: write_breaks_def connected_def)

lemma sshClient_refused:
  "fst (sshClient refused i) = Some (Err ''dial tcp 1.2.3.4:22: connection refused'')"
  by (simp add: sshClient_def refreshInstance_def getIP_def
      ssh_env.truncate_def refused_def connected_def running_instance_def)

theorem partial_write_then_stale_witness:
  "attempt_errors example_instance ''echo ok'' None
       [write_breaks, connected, refused, connected] ! 0 = Some (Err ''connection lost'') \<and>
   attempt_errors example_instance ''echo ok'' None
       [write_breaks, connected, refused, connected] ! Suc 0 = Some ErrStaleVM \<and>
   attempt_errors example_instance ''echo ok'' None
       [write_breaks, connected, refused, connected] ! Suc (Suc 0) =
     Some (Err ''dial tcp 1.2.3.4:22: connection refused'') \<and>
   attempt_errors example_instance ''echo ok'' None
       [write_breaks, connected, refused, connected] ! Suc (Suc (Suc 0)) = Some ErrStaleVM"
proof -
  note t1 = partial_write_then_stale [OF reaches_write_breaks write_breaks_fields,
      of example_instance "''echo ok''" "[connected, refused, connected]"]
  note first = t1 [THEN conjunct1]
  note stale = t1 [THEN conjunct2, THEN conjunct1, rule_format]
  note conn = t1 [THEN conjunct2, THEN conjunct2, rule_format]
  have a: "attempt_errors example_instance ''echo ok'' None
       [write_breaks, connected, refused, connected] ! Suc 0 = Some ErrStaleVM"
    by (rule stale) (simp_all add: reaches_connected)
  have b: "attempt_errors example_instance ''echo ok'' None
       [write_breaks, connected, refused, connected] ! Suc (Suc 0) =
     Some (Err ''dial tcp 1.2.3.4:22: connection refused'')"
    by (rule conn) (simp_all add: sshClient_refused)
  have c: "attempt_errors example_instance ''echo ok'' None
       [write_breaks, connected, refused, connected] ! Suc (Suc (Suc 0)) = Some ErrStaleVM"
    by (rule stale) (simp_all add: reaches_connected)
  from first a b c show ?thesis
    by blast
qed

theorem partial_write_then_stale_counterexample:
  "attempt_errors example_instance ''echo ok'' None [write_breaks, refused] =
     [Some (Err ''connection lost''),
      Some (Err ''dial tcp 1.2.3.4:22: connection refused'')] \<and>
   map_option (\<lambda>(r, st). (r, attempts st, guest st))
     (UploadScript example_instance ''echo ok'' None
        [iter write_breaks, iter refused, iter refused, iter refused]) =
     Some (Some (Err ''dial tcp 1.2.3.4:22: connection refused''), 4, Some ''#!/bin'')"
proof -
  have w: "uploadScriptAttempt write_breaks i script None =
      (Some (Err ''connection lost''), i\<lparr>i_instance := running_instance\<rparr>, Some ''#!/bin'')"
    for i script
    by (simp add: uploadScriptAttempt_def sshClient_def refreshInstance_def getIP_def
      ssh_env.truncate_def write_breaks_def connected_def running_instance_def sftp_Lstat_def
      sftp_Create_def file_Write_def)
  show ?thesis
    by (simp add: UploadScript_def w attempt_refused iter_def Let_def
      example_instance_def example_provider_def)
qed

subsection \<open>Starting an instance\<close>

lemma getImage_example:
  "getImage (\<lambda>s. ''OCAML'') minimal_only group_provider ocaml_job =
     Returns (Inr (Some \<lparr>Image_Name = ''travis-ci-minimal-20150101'',
                          Image_SelfLink = ''images/minimal''\<rparr>))"
  by (simp add: getImage_def legacyImageSelect_def imageForLanguage_def imageByFilter_def
      gceImageTravisCIPrefixFilter_def minimal_only_def group_provider_def example_provider_def
      ocaml_job_def IsSet_def Get_def)

text \<open>
  C1. \<^verbatim>\<open>Start\<close> is to leave no instance behind: when the insert succeeded and \<^verbatim>\<open>Start\<close>
  returns an error, a delete of the instance is to be issued. In the run \<open>get_fails\<close>
  the provider has an instance group, the insert operation completes, and the
  \<^verbatim>\<open>Instances.Get\<close> before the group is joined fails: \<^verbatim>\<open>Start\<close> returns that error,
  and the calls it made are the insert and the get, with no delete.
\<close>

theorem Start_leaks_instance:
  "Instances_Insert get_fails = Inr ''operation-insert'' \<and>
   Start get_fails group_provider ocaml_job =
     (Some (Returns (Inl (Err ''googleapi: got HTTP response code 503''))),
      [Call_Insert ''testing-gce-0a1b'', Call_Get ''testing-gce-0a1b''])"
  by (simp add: Start_def Start_group_def Start_return_def getImage_example buildInstance_def
      get_fails_def)
    (simp add: group_provider_def example_provider_def Start_group_def Start_return_def)

text \<open>Where the insert operation ends in an error the delete is issued.\<close>

lemma Start_deletes_on_op_error:
  "Start insert_op_fails example_provider ocaml_job =
     (Some (Returns (Inl (GceOpError
        [OperationErrorErrors ''QUOTA_EXCEEDED'' ''zones/us-central1-a'' ''out of cpus'']))),
      [Call_Insert ''testing-gce-0a1b'', Call_Delete ''testing-gce-0a1b''])"
proof -
  have g: "getImage (\<lambda>s. ''OCAML'') minimal_only example_provider ocaml_job =
     Returns (Inr (Some \<lparr>Image_Name = ''travis-ci-minimal-20150101'',
                          Image_SelfLink = ''images/minimal''\<rparr>))"
    by (simp add: getImage_def legacyImageSelect_def imageForLanguage_def imageByFilter_def
      gceImageTravisCIPrefixFilter_def minimal_only_def example_provider_def
      ocaml_job_def IsSet_def Get_def)
  show ?thesis
    by (simp add: Start_def Start_select_def Start_return_def g buildInstance_def
      insert_op_fails_def get_fails_def)
      (simp add: example_provider_def Start_select_def Start_return_def)
qed

text \<open>
  Every return of an error after the insert issues a delete, but for the one above: the
  failure of the \<^verbatim>\<open>Instances.Get\<close> of the group path.
\<close>

lemma Start_return_deletes:
  "Start_return st r = (Some (Returns (Inl err)), cs) \<Longrightarrow> abandonedStart st \<Longrightarrow>
   \<exists>name. Call_Delete name \<in> set cs"
  by (auto simp: Start_return_def split: option.splits)

lemma Start_select_deletes:
  "Start_select env p img st msg i = (Some (Returns (Inl err)), cs) \<Longrightarrow>
   \<exists>name. Call_Delete name \<in> set cs"
  by (auto simp: Start_select_def Start_return_def
      split: option.splits start_msg.splits if_splits)

lemma Start_group_deletes:
  "Start_group env p img st msg i = (Some (Returns (Inl err)), cs) \<Longrightarrow>
   (\<exists>name. Call_Delete name \<in> set cs) \<or>
   (wait_ctx env = None \<and> msg = Some On_instChan \<and> group_Instances_Get env = Inl err)"
  by (auto simp: Start_group_def Start_return_def Let_def
      dest: Start_select_deletes
      split: option.splits start_msg.splits sum.splits if_splits)

lemma Start_abandons_elsewhere:
  assumes "Start env p startAttributes = (Some (Returns (Inl err)), cs)"
    and "Instances_Insert env = Inr opName" and "cs \<noteq> []"
  shows "(\<exists>name. Call_Delete name \<in> set cs) \<or>
    (instanceGroup p \<noteq> [] \<and> wait_ctx env = None \<and> group_Instances_Get env = Inl err)"
  using assms
  by (auto simp: Start_def Let_def
      dest: Start_select_deletes Start_group_deletes
      split: outcome.splits sum.splits option.splits if_splits)

subsection \<open>Stopping an instance\<close>

lemma Stop_poller_pending:
  "list_all not_done pending \<Longrightarrow>
   Stop_poller (pending @ replies) slept = Stop_poller replies (slept + length pending)"
proof (induction pending arbitrary: slept)
  case Nil
  then show ?case by simp
next
  case (Cons reply pending)
  then show ?case
    by (cases reply) (simp_all add: not_done_def)
qed

text \<open>
  C10. The poller of \<^verbatim>\<open>Stop\<close> reads the \<^verbatim>\<open>Error\<close> of the delete operation only when
  its \<^verbatim>\<open>Status\<close> is \<^verbatim>\<open>DONE\<close>. Over replies that are not done, with or without an
  error payload, it sleeps once per reply and polls again, until a reply is done (it
  then sends the operation's error, or \<^verbatim>\<open>nil\<close>) or a poll fails (it sends that
  error). The poller does not read the context: what it does is the same whatever the
  context is. \<^verbatim>\<open>Stop\<close> returns what the poller sends, or \<^verbatim>\<open>ctx.Err()\<close> when the
  context is done first. The pollers of \<^verbatim>\<open>Start\<close> instead send the error of a reply
  that is not done.
\<close>

theorem Stop_polls_past_errors:
  assumes "list_all not_done pending"
  shows "Stop_poller (pending @ replies) slept = Stop_poller replies (slept + length pending) \<and>
    Stop_poller (pending @ Operation ''DONE'' (Some errs) # replies) slept =
      (Some (Some (GceOpError errs)), slept + length pending) \<and>
    Stop_poller (pending @ Operation ''DONE'' None # replies) slept =
      (Some None, slept + length pending) \<and>
    Stop_poller (pending @ Get_failed err # replies) slept =
      (Some (Some err), slept + length pending) \<and>
    Stop_poller pending slept = (None, slept + length pending) \<and>
    (Instances_Delete env = Inr opName \<and> delete_replies env = pending @ replies \<longrightarrow>
       Stop env i =
         (case stop_ctx env of
            Some cerr \<Rightarrow> Some (Some cerr)
          | None \<Rightarrow> fst (Stop_poller replies (length pending)))) \<and>
    (status \<noteq> ''DONE'' \<longrightarrow>
       Start_poller (Operation status (Some errs) # replies) slept =
         (Some (On_errChan (GceOpError errs)), slept)) \<and>
    Stop_poller (delete_replies (env\<lparr>stop_ctx := c\<rparr>)) slept =
      Stop_poller (delete_replies env) slept"
proof -
  note p = Stop_poller_pending [OF assms]
  have "Stop_poller pending slept = (None, slept + length pending)"
    using p [of "[]" slept] by simp
  then show ?thesis
    by (auto simp: p Stop_def split: option.splits)
qed

theorem Stop_polls_past_errors_witness:
  "Stop slow_delete example_instance = Some None \<and>
   Stop cancelled_delete example_instance = Some (Some Canceled) \<and>
   Stop_poller (delete_replies slow_delete) 0 = (Some None, 2) \<and>
   Start_poller (delete_replies slow_delete) 0 =
     (Some (On_errChan (GceOpError
        [OperationErrorErrors ''RESOURCE_IN_USE'' ''zones/us-central1-a'' ''busy''])), 0)"
proof -
  have nd: "list_all not_done pending_with_error"
    by (simp add: pending_with_error_def not_done_def)
  have s: "Start_poller (delete_replies slow_delete) 0 =
     (Some (On_errChan (GceOpError
        [OperationErrorErrors ''RESOURCE_IN_USE'' ''zones/us-central1-a'' ''busy''])), 0)"
    by (simp add: slow_delete_def pending_with_error_def)
  have l: "length pending_with_error = 2"
    by (simp add: pending_with_error_def)
  show ?thesis
    using Stop_polls_past_errors [OF nd, where replies = "[Operation ''DONE'' None]" and slept = 0
        and env = slow_delete and opName = "''operation-delete''" and i = example_instance]
      Stop_polls_past_errors [OF nd, where replies = "[Operation ''DONE'' None]" and slept = 0
        and env = cancelled_delete and opName = "''operation-delete''"
        and i = example_instance] s l
    by (simp add: slow_delete_def cancelled_delete_def)
qed

theorem Stop_polls_past_errors_counterexample:
  "Stop cancelled_delete example_instance = Some (Some Canceled) \<and>
   Stop_poller (delete_replies cancelled_delete) 0 = (Some None, 2)"
  by (simp add: Stop_def cancelled_delete_def slow_delete_def pending_with_error_def)

end
